theory Spec2Isabelle
  imports Complex_Main
begin

section \<open>Data model\<close>

text \<open>
  The script \<^verbatim>\<open>pairwise_group_classification.py\<close> works on points of the plane, on
  participants carrying a stream of mood data and a diagnosis, and on two result tables
  indexed by pairs of clinical groups. A point is a pair of finite numbers, the two values
  an array of the script holds.
\<close>

type_synonym point = "real \<times> real"
type_synonym stream = "real list list"
type_synonym signature = "real list"
type_synonym table = "string \<times> string \<Rightarrow> real option"

text \<open>
  What the script computes from points is a \<^verbatim>\<open>float64\<close>: a finite number, an infinity or
  not a number. The comparisons \<^verbatim>\<open>>\<close>, \<^verbatim>\<open>==\<close> and \<^verbatim>\<open><=\<close> are those of IEEE 754: every
  comparison with NaN is false.
\<close>

datatype float64 = Finite real | PlusInf | MinusInf | NaN

fun gt64 :: "float64 \<Rightarrow> float64 \<Rightarrow> bool" where
  "gt64 (Finite a) (Finite b) = (a > b)"
| "gt64 PlusInf (Finite b) = True"
| "gt64 PlusInf MinusInf = True"
| "gt64 (Finite a) MinusInf = True"
| "gt64 x y = False"

fun eq64 :: "float64 \<Rightarrow> float64 \<Rightarrow> bool" where
  "eq64 (Finite a) (Finite b) = (a = b)"
| "eq64 PlusInf PlusInf = True"
| "eq64 MinusInf MinusInf = True"
| "eq64 x y = False"


text \<open>
  Exceptions are values. \<open>IndexError\<close> is raised by indexing an array out of range,
  \<open>ValueError\<close> by \<^verbatim>\<open>list.index\<close> on a missing element; \<open>Raised\<close> stands for any other
  exception a library raises.
\<close>

datatype error = IndexError | ValueError | Raised string

text \<open>
  Modelled from the spec: the class of participants lives in the module \<^verbatim>\<open>psychiatry\<close>.
  A participant has an identifier, time-series \<open>data\<close> and a categorical \<open>diagnosis\<close>;
  the script reads \<^verbatim>\<open>X.data\<close> and uses \<^verbatim>\<open>X.diagnosis\<close> as an index into the threshold.
\<close>

record participant =
  idNumber :: nat
  data :: stream
  diagnosis :: int

text \<open>
  The libraries the script calls are parameters of the model, and nothing is assumed of
  what they compute. The calls of \<^verbatim>\<open>psychiatry\<close>, \<^verbatim>\<open>esig\<close> and \<^verbatim>\<open>sklearn\<close> may raise. The
  data loader and the training of the random forest draw from the global random number
  generators and read files, so they take and return a world \<open>'w\<close>. Of \<^verbatim>\<open>numpy\<close> the script
  uses the difference of two arrays and \<^verbatim>\<open>np.linalg.norm\<close>, which computes in \<^verbatim>\<open>float64\<close>.
  Of \<^verbatim>\<open>pandas\<close> it uses \<^verbatim>\<open>frame.loc[row]\<close>, which returns the row either as a view of
  the frame or as a copy of it: \<open>loc_view\<close> tells which.
\<close>

record ('w, 'reg) externals =
  random_seed :: "nat \<Rightarrow> 'w \<Rightarrow> 'w"
  np_random_seed :: "nat \<Rightarrow> 'w \<Rightarrow> 'w"
  buildData :: "nat \<Rightarrow> string \<Rightarrow> real \<Rightarrow> string \<times> string \<Rightarrow> 'w
                  \<Rightarrow> (error + participant list \<times> participant list) \<times> 'w"
  stream2sig :: "stream \<Rightarrow> nat \<Rightarrow> error + signature"
  forest_fit :: "signature list \<Rightarrow> point list \<Rightarrow> 'w \<Rightarrow> (error + 'reg) \<times> 'w"
  predict :: "'reg \<Rightarrow> signature list \<Rightarrow> error + point list"
  accuracy_score :: "nat list \<Rightarrow> nat list \<Rightarrow> error + real"
  roc_auc_score :: "nat list \<Rightarrow> nat list \<Rightarrow> error + real"
  subtract :: "point \<Rightarrow> point \<Rightarrow> float64 \<times> float64"
  linalg_norm :: "float64 \<times> float64 \<Rightarrow> float64"
  loc_view :: "table \<Rightarrow> string \<Rightarrow> bool"

text \<open>
  What the script does, in the order it does it: messages given to the logger, the call
  of the loader with its pair of groups, the call of \<open>fit\<close> with its collection, the call
  of \<open>test\<close> with its collection and its forest, and the assignment statements on the
  result tables with the value they assign.
\<close>

datatype 'reg event =
    Log string
  | Log_to_string table
  | Call_buildData "string \<times> string"
  | Call_fit "participant list"
  | Call_test "participant list" 'reg
  | Set_accuracy string string real
  | Set_auc string string real

record ('w, 'reg) state =
  accuracy_results :: table
  auc_results :: table
  trace :: "'reg event list"
  world :: 'w

section \<open>Nearest anchor\<close>

text \<open>
  \<^verbatim>\<open>
  m=(-1, (0,0))
  for p0 in A:
      dist = np.linalg.norm(p0-np.array(p))
      if m[0]==-1 or m[0]>dist:
          m = (dist, p0)
  return tuple(m[1])
  \<close>
\<close>

fun findMin_loop :: "('w, 'reg) externals \<Rightarrow> point \<Rightarrow> point list \<Rightarrow> float64 \<times> point
                      \<Rightarrow> float64 \<times> point" where
  "findMin_loop ext p [] m = m"
| "findMin_loop ext p (p0 # A) m =
     (let dist = linalg_norm ext (subtract ext p0 p)
      in findMin_loop ext p A
           (if eq64 (fst m) (Finite (- 1)) \<or> gt64 (fst m) dist then (dist, p0) else m))"

definition findMin :: "('w, 'reg) externals \<Rightarrow> point \<Rightarrow> point list \<Rightarrow> point" where
  "findMin ext p A = snd (findMin_loop ext p A (Finite (- 1), (0, 0)))"

section \<open>Indexing\<close>

text \<open>
  \<^verbatim>\<open>threshold[X.diagnosis]\<close>: an integer index into an array; a negative index counts
  from the end, an index out of range raises.
\<close>

definition getitem :: "'a list \<Rightarrow> int \<Rightarrow> error + 'a" where
  "getitem xs i =
     (let n = int (length xs)
      in if 0 \<le> i \<and> i < n then Inr (xs ! nat i)
         else if - n \<le> i \<and> i < 0 then Inr (xs ! nat (i + n))
         else Inl IndexError)"

text \<open>\<^verbatim>\<open>list.index\<close>: the first position holding the value, or \<open>ValueError\<close>.\<close>

fun index_from :: "nat \<Rightarrow> 'a list \<Rightarrow> 'a \<Rightarrow> error + nat" where
  "index_from k [] v = Inl ValueError"
| "index_from k (x # xs) v = (if x = v then Inr k else index_from (Suc k) xs v)"

definition list_index :: "'a list \<Rightarrow> 'a \<Rightarrow> error + nat" where
  "list_index xs v = index_from 0 xs v"

text \<open>\<^verbatim>\<open>[threshold.tolist().index(val.tolist()) for val in vals]\<close>\<close>

fun labels_of :: "point list \<Rightarrow> point list \<Rightarrow> error + nat list" where
  "labels_of threshold [] = Inr []"
| "labels_of threshold (val # vals) =
     (case list_index threshold val of
        Inl e \<Rightarrow> Inl e
      | Inr l \<Rightarrow> (case labels_of threshold vals of
                   Inl e \<Rightarrow> Inl e
                 | Inr ls \<Rightarrow> Inr (l # ls)))"

section \<open>Testing and fitting\<close>

text \<open>
  The loop of \<open>test\<close> that fills \<open>x\<close> and \<open>y\<close>:
  \<^verbatim>\<open>
  for X in collection:
      x.append(list(tosig.stream2sig(np.array(X.data), order)))
      y.append(threshold[X.diagnosis])
  \<close>
\<close>

fun test_xy :: "('w, 'reg) externals \<Rightarrow> participant list \<Rightarrow> point list \<Rightarrow> nat
                 \<Rightarrow> signature list \<Rightarrow> point list \<Rightarrow> error + signature list \<times> point list" where
  "test_xy ext [] threshold ord x y = Inr (x, y)"
| "test_xy ext (X # collection) threshold ord x y =
     (case stream2sig ext (data X) ord of
        Inl e \<Rightarrow> Inl e
      | Inr sg \<Rightarrow> (case getitem threshold (diagnosis X) of
                    Inl e \<Rightarrow> Inl e
                  | Inr t \<Rightarrow> test_xy ext collection threshold ord (x @ [sg]) (y @ [t])))"

definition test :: "('w, 'reg) externals \<Rightarrow> participant list \<Rightarrow> 'reg \<Rightarrow> point list \<Rightarrow> nat
                      \<Rightarrow> error + real \<times> real" where
  "test ext collection reg threshold ord =
     (case test_xy ext collection threshold ord [] [] of
        Inl e \<Rightarrow> Inl e
      | Inr (x, y) \<Rightarrow>
     (case predict ext reg x of
        Inl e \<Rightarrow> Inl e
      | Inr predicted_raw \<Rightarrow>
     (let predicted = map (\<lambda>prediction. findMin ext prediction threshold) predicted_raw
      in case labels_of threshold predicted of
        Inl e \<Rightarrow> Inl e
      | Inr predicted_labels \<Rightarrow>
     (case labels_of threshold y of
        Inl e \<Rightarrow> Inl e
      | Inr y_labels \<Rightarrow>
     (case accuracy_score ext y_labels predicted_labels of
        Inl e \<Rightarrow> Inl e
      | Inr acc \<Rightarrow>
     (case roc_auc_score ext y_labels predicted_labels of
        Inl e \<Rightarrow> Inl e
      | Inr roc \<Rightarrow> Inr (acc, roc)))))))"

text \<open>
  The loop of \<open>fit\<close>:
  \<^verbatim>\<open>
  for participant in collection:
      x.append(tosig.stream2sig(np.array(participant.data), order))
      y.append(threshold[participant.diagnosis])
  \<close>
\<close>

fun fit_xy :: "('w, 'reg) externals \<Rightarrow> participant list \<Rightarrow> point list \<Rightarrow> nat
                \<Rightarrow> signature list \<Rightarrow> point list \<Rightarrow> error + signature list \<times> point list" where
  "fit_xy ext [] threshold ord x y = Inr (x, y)"
| "fit_xy ext (participant # collection) threshold ord x y =
     (case stream2sig ext (data participant) ord of
        Inl e \<Rightarrow> Inl e
      | Inr sg \<Rightarrow> (case getitem threshold (diagnosis participant) of
                    Inl e \<Rightarrow> Inl e
                  | Inr t \<Rightarrow> fit_xy ext collection threshold ord (x @ [sg]) (y @ [t])))"

definition fit :: "('w, 'reg) externals \<Rightarrow> participant list \<Rightarrow> point list \<Rightarrow> nat \<Rightarrow> 'w
                     \<Rightarrow> (error + 'reg) \<times> 'w" where
  "fit ext collection threshold ord w =
     (case fit_xy ext collection threshold ord [] [] of
        Inl e \<Rightarrow> (Inl e, w)
      | Inr (x, y) \<Rightarrow> forest_fit ext x y w)"

section \<open>The main script\<close>

text \<open>
  The array \<^verbatim>\<open>threshold\<close> of the main script has the rows \<^verbatim>\<open>[1, 0]\<close>, \<^verbatim>\<open>[0, 1]\<close> and
  \<^verbatim>\<open>[-1/np.sqrt(2), -1/np.sqrt(2)]\<close>. In \<^verbatim>\<open>float64\<close> the square root of 2 is
  \<open>6369051672525773 / 2^52\<close>, and \<open>-1\<close> divided by it is \<open>-1592262918131443 / 2^51\<close>, printed
  \<^verbatim>\<open>-0.7071067811865475\<close>: this is what the array holds.
\<close>

definition threshold :: "point list" where
  "threshold = [(1, 0), (0, 1),
                (- 1592262918131443 / 2 ^ 51, - 1592262918131443 / 2 ^ 51)]"

definition diagnosis_groups :: "string list" where
  "diagnosis_groups = [''healthy'', ''bipolar'', ''borderline'']"

text \<open>
  Modelled from the spec: the class \<^verbatim>\<open>Logger\<close> lives in the module \<^verbatim>\<open>logger\<close>. The script
  writes its messages to the log stream, one after the other.
\<close>

definition log :: "string \<Rightarrow> ('w, 'reg) state \<Rightarrow> ('w, 'reg) state" where
  "log msg s = s\<lparr>trace := trace s @ [Log msg]\<rparr>"

definition emit :: "'reg event \<Rightarrow> ('w, 'reg) state \<Rightarrow> ('w, 'reg) state" where
  "emit ev s = s\<lparr>trace := trace s @ [ev]\<rparr>"

text \<open>
  \<^verbatim>\<open>results.loc[group1][group2] = value\<close> is a chained assignment: it assigns to the row
  that \<^verbatim>\<open>results.loc[group1]\<close> returned. The cell of the table is written when that row
  is a view of the table, and the table is left as it was when the row is a copy.
\<close>

definition loc_setitem :: "('w, 'reg) externals \<Rightarrow> table \<Rightarrow> string \<Rightarrow> string \<Rightarrow> real \<Rightarrow> table" where
  "loc_setitem ext results group1 group2 v =
     (if loc_view ext results group1 then results((group1, group2) \<mapsto> v) else results)"

text \<open>
  The body of the inner loop, lines 169 to 189. An exception leaves the loop with the
  state reached so far.
\<close>

definition iteration :: "('w, 'reg) externals \<Rightarrow> point list \<Rightarrow> string \<Rightarrow> string
                           \<Rightarrow> ('w, 'reg) state \<Rightarrow> error option \<times> ('w, 'reg) state" where
  "iteration ext thr group1 group2 s =
     (let groups = (group1, group2);
          s1 = log (''Loading '' @ group1 @ '' and '' @ group2 @ ''...'') s;
          s2 = emit (Call_buildData groups) s1
      in case buildData ext 20 ''../data'' (7 / 10) groups (world s2) of
        (Inl e, w) \<Rightarrow> (Some e, s2\<lparr>world := w\<rparr>)
      | (Inr (ts, os), w) \<Rightarrow>
     (let s3 = log (''Done.'' @ [CHR 0x0A]) (s2\<lparr>world := w\<rparr>);
          s4 = log ''Training the model...'' s3;
          s5 = emit (Call_fit ts) s4
      in case fit ext ts thr 2 (world s5) of
        (Inl e, w') \<Rightarrow> (Some e, s5\<lparr>world := w'\<rparr>)
      | (Inr reg, w') \<Rightarrow>
     (let s6 = log (''Done.'' @ [CHR 0x0A]) (s5\<lparr>world := w'\<rparr>);
          s7 = log ''Testing the model...'' s6;
          s8 = emit (Call_test os reg) s7
      in case test ext os reg thr 2 of
        Inl e \<Rightarrow> (Some e, s8)
      | Inr (accuracy, auc) \<Rightarrow>
     (let s9 = log ''Done.'' s8;
          s10 = emit (Set_accuracy group1 group2 accuracy)
                  (s9\<lparr>accuracy_results :=
                         loc_setitem ext (accuracy_results s9) group1 group2 accuracy\<rparr>);
          s11 = emit (Set_auc group1 group2 auc)
                  (s10\<lparr>auc_results := loc_setitem ext (auc_results s10) group1 group2 auc\<rparr>)
      in (None, s11)))))"

text \<open>\<^verbatim>\<open>for group2 in diagnosis[i + 1:]\<close>\<close>

fun inner_loop :: "('w, 'reg) externals \<Rightarrow> point list \<Rightarrow> string \<Rightarrow> string list
                    \<Rightarrow> ('w, 'reg) state \<Rightarrow> error option \<times> ('w, 'reg) state" where
  "inner_loop ext thr group1 [] s = (None, s)"
| "inner_loop ext thr group1 (group2 # rest) s =
     (case iteration ext thr group1 group2 s of
        (Some e, s') \<Rightarrow> (Some e, s')
      | (None, s') \<Rightarrow> inner_loop ext thr group1 rest s')"

text \<open>\<^verbatim>\<open>for i, group1 in enumerate(diagnosis)\<close>\<close>

fun outer_loop :: "('w, 'reg) externals \<Rightarrow> point list \<Rightarrow> (nat \<times> string) list
                    \<Rightarrow> ('w, 'reg) state \<Rightarrow> error option \<times> ('w, 'reg) state" where
  "outer_loop ext thr [] s = (None, s)"
| "outer_loop ext thr ((i, group1) # rest) s =
     (case inner_loop ext thr group1 (drop (i + 1) diagnosis_groups) s of
        (Some e, s') \<Rightarrow> (Some e, s')
      | (None, s') \<Rightarrow> outer_loop ext thr rest s')"

text \<open>Lines 192 to 199: the two tables are given to the logger.\<close>

definition print_results :: "('w, 'reg) state \<Rightarrow> ('w, 'reg) state" where
  "print_results s =
     (let s1 = log ''###########'' s;
          s2 = log ''  Results  '' s1;
          s3 = log ''###########'' s2;
          s4 = log ''Accuracy:'' s3;
          s5 = emit (Log_to_string (accuracy_results s4)) s4;
          s6 = log ''AUC:'' s5
      in emit (Log_to_string (auc_results s6)) s6)"

definition initial :: "('w, 'reg) externals \<Rightarrow> 'w \<Rightarrow> ('w, 'reg) state" where
  "initial ext w =
     \<lparr>accuracy_results = (\<lambda>cell. None), auc_results = (\<lambda>cell. None), trace = [],
      world = np_random_seed ext 83042 (random_seed ext 83042 w)\<rparr>"

definition main :: "('w, 'reg) externals \<Rightarrow> 'w \<Rightarrow> error option \<times> ('w, 'reg) state" where
  "main ext w =
     (case outer_loop ext threshold (enumerate 0 diagnosis_groups) (initial ext w) of
        (Some e, s) \<Rightarrow> (Some e, s)
      | (None, s) \<Rightarrow> (None, print_results s))"

section \<open>The iteration space\<close>

text \<open>The pairs of groups the two nested loops of the main script visit, in order.\<close>

definition pairs :: "(string \<times> string) list" where
  "pairs = concat (map (\<lambda>(i, group1). map (\<lambda>group2. (group1, group2)) (drop (i + 1) diagnosis_groups))
                      (enumerate 0 diagnosis_groups))"

text \<open>The loop body run over a list of pairs, stopping at the first exception.\<close>

fun run_pairs :: "('w, 'reg) externals \<Rightarrow> point list \<Rightarrow> (string \<times> string) list
                   \<Rightarrow> ('w, 'reg) state \<Rightarrow> error option \<times> ('w, 'reg) state" where
  "run_pairs ext thr [] s = (None, s)"
| "run_pairs ext thr ((group1, group2) # ps) s =
     (case iteration ext thr group1 group2 s of
        (Some e, s') \<Rightarrow> (Some e, s')
      | (None, s') \<Rightarrow> run_pairs ext thr ps s')"

section \<open>Distances\<close>

text \<open>
  The distance the loop of \<open>findMin\<close> computes for a point \<open>q\<close> of the list, and the
  distances that are numbers: the non-negative ones and plus infinity.
\<close>

definition computed_distance :: "('w, 'reg) externals \<Rightarrow> point \<Rightarrow> point \<Rightarrow> float64" where
  "computed_distance ext p q = linalg_norm ext (subtract ext q p)"


text \<open>The Euclidean distance of two points, and the Euclidean norm of a point.\<close>

definition euclidean :: "point \<Rightarrow> point \<Rightarrow> real" where
  "euclidean a b = sqrt ((fst a - fst b)\<^sup>2 + (snd a - snd b)\<^sup>2)"

definition euclidean_norm :: "point \<Rightarrow> real" where
  "euclidean_norm a = euclidean a (0, 0)"


section \<open>The order of operations, as the specification words it\<close>

text \<open>
  The specification describes the script as load, fit, test and score, once per pair of
  groups, and print at the end. The events of the four steps of a pass for the pair
  \<open>(group1, group2)\<close>: loading, fitting on the collection \<open>ts\<close>, testing the forest \<open>reg\<close> on
  the collection \<open>os\<close>, and recording the two scores.
\<close>

definition spec_load_events :: "string \<Rightarrow> string \<Rightarrow> 'reg event list" where
  "spec_load_events group1 group2 =
     [Log (''Loading '' @ group1 @ '' and '' @ group2 @ ''...''),
      Call_buildData (group1, group2)]"

definition spec_fit_events :: "participant list \<Rightarrow> 'reg event list" where
  "spec_fit_events ts =
     [Log (''Done.'' @ [CHR 0x0A]), Log ''Training the model...'', Call_fit ts]"

definition spec_test_events :: "participant list \<Rightarrow> 'reg \<Rightarrow> 'reg event list" where
  "spec_test_events os reg =
     [Log (''Done.'' @ [CHR 0x0A]), Log ''Testing the model...'', Call_test os reg]"

definition spec_record_events :: "string \<Rightarrow> string \<Rightarrow> real \<Rightarrow> real \<Rightarrow> 'reg event list" where
  "spec_record_events group1 group2 accuracy auc =
     [Log ''Done.'', Set_accuracy group1 group2 accuracy, Set_auc group1 group2 auc]"

text \<open>
  A complete pass: the two collections the loader returned, the forest \<open>fit\<close> returned,
  the two scores \<open>test\<close> returned, and the world before the pass, after loading and after
  fitting.
\<close>

record ('w, 'reg) pass =
  pass_ts :: "participant list"
  pass_os :: "participant list"
  pass_reg :: 'reg
  pass_accuracy :: real
  pass_auc :: real
  world_before :: 'w
  world_loaded :: 'w
  world_fitted :: 'w

definition pass_events :: "string \<times> string \<Rightarrow> ('w, 'reg) pass \<Rightarrow> 'reg event list" where
  "pass_events groups ps =
     spec_load_events (fst groups) (snd groups)
     @ spec_fit_events (pass_ts ps)
     @ spec_test_events (pass_os ps) (pass_reg ps)
     @ spec_record_events (fst groups) (snd groups) (pass_accuracy ps) (pass_auc ps)"

text \<open>
  The pass is what the specification says: the loader is called for the pair, \<open>fit\<close> is
  called on the training set the loader returned, \<open>test\<close> on the out-of-sample set it
  returned and on the forest \<open>fit\<close> returned, and the scores are those \<open>test\<close> returned.
\<close>

definition pass_ok :: "('w, 'reg) externals \<Rightarrow> point list \<Rightarrow> string \<times> string \<Rightarrow> ('w, 'reg) pass \<Rightarrow> bool" where
  "pass_ok ext thr groups ps \<longleftrightarrow>
     buildData ext 20 ''../data'' (7 / 10) groups (world_before ps)
       = (Inr (pass_ts ps, pass_os ps), world_loaded ps)
     \<and> fit ext (pass_ts ps) thr 2 (world_loaded ps) = (Inr (pass_reg ps), world_fitted ps)
     \<and> test ext (pass_os ps) (pass_reg ps) thr 2 = Inr (pass_accuracy ps, pass_auc ps)"

text \<open>Complete passes for a list of pairs, each starting in the world the one before left.\<close>

fun passes_ok :: "('w, 'reg) externals \<Rightarrow> point list \<Rightarrow> (string \<times> string) list
                   \<Rightarrow> ('w, 'reg) pass list \<Rightarrow> 'w \<Rightarrow> bool" where
  "passes_ok ext thr [] [] w = True"
| "passes_ok ext thr (groups # gs) (ps # rest) w =
     (world_before ps = w \<and> pass_ok ext thr groups ps \<and> passes_ok ext thr gs rest (world_fitted ps))"
| "passes_ok ext thr gs rest w = False"

fun passes_events :: "(string \<times> string) list \<Rightarrow> ('w, 'reg) pass list \<Rightarrow> 'reg event list" where
  "passes_events (groups # gs) (ps # rest) = pass_events groups ps @ passes_events gs rest"
| "passes_events gs rest = []"

fun world_after :: "'w \<Rightarrow> ('w, 'reg) pass list \<Rightarrow> 'w" where
  "world_after w [] = w"
| "world_after w (ps # rest) = world_after (world_fitted ps) rest"

text \<open>The events of printing the two tables.\<close>

definition spec_print_events :: "table \<Rightarrow> table \<Rightarrow> 'reg event list" where
  "spec_print_events accuracy_table auc_table =
     [Log ''###########'', Log ''  Results  '', Log ''###########'',
      Log ''Accuracy:'', Log_to_string accuracy_table,
      Log ''AUC:'', Log_to_string auc_table]"

text \<open>The assignments to the tables among the events, and the messages of the logger.\<close>

fun is_assignment :: "'reg event \<Rightarrow> bool" where
  "is_assignment (Set_accuracy group1 group2 v) = True"
| "is_assignment (Set_auc group1 group2 v) = True"
| "is_assignment ev = False"

fun is_print :: "'reg event \<Rightarrow> bool" where
  "is_print (Log_to_string t) = True"
| "is_print ev = False"

fun messages :: "'reg event list \<Rightarrow> string list" where
  "messages [] = []"
| "messages (Log msg # evs) = msg # messages evs"
| "messages (ev # evs) = messages evs"

text \<open>The pairs the loader was called for, in order.\<close>

fun loads :: "'reg event list \<Rightarrow> (string \<times> string) list" where
  "loads [] = []"
| "loads (Call_buildData groups # evs) = groups # loads evs"
| "loads (ev # evs) = loads evs"

section \<open>Arithmetic in float64\<close>

text \<open>
  IEEE 754 binary64 with rounding to nearest, ties to even, as a stand-in for what
  \<^verbatim>\<open>numpy\<close> computes: a real number is rounded to the nearest multiple of the unit in the
  last place of its binade, 53 bits wide, with the subnormal numbers below \<open>2^-1022\<close> and
  overflow to an infinity from \<open>2^1024\<close> on.
\<close>

definition rne :: "real \<Rightarrow> int" where
  "rne x =
     (let f = \<lfloor>x\<rfloor>
      in if x - of_int f < 1 / 2 then f
         else if x - of_int f > 1 / 2 then f + 1
         else if even f then f else f + 1)"

definition pow2 :: "int \<Rightarrow> real" where
  "pow2 k = (if 0 \<le> k then 2 ^ nat k else 1 / 2 ^ nat (- k))"

definition exponent64 :: "real \<Rightarrow> int" where
  "exponent64 x = max (- 1022) \<lfloor>Transcendental.log 2 \<bar>x\<bar>\<rfloor>"

definition round64 :: "real \<Rightarrow> float64" where
  "round64 x =
     (if x = 0 then Finite 0
      else let ulp = pow2 (exponent64 x - 52);
               y = of_int (rne (x / ulp)) * ulp
           in if 2 ^ 1024 \<le> \<bar>y\<bar> then (if 0 < x then PlusInf else MinusInf)
              else Finite y)"

fun add64 :: "float64 \<Rightarrow> float64 \<Rightarrow> float64" where
  "add64 (Finite a) (Finite b) = round64 (a + b)"
| "add64 NaN y = NaN"
| "add64 x NaN = NaN"
| "add64 PlusInf MinusInf = NaN"
| "add64 MinusInf PlusInf = NaN"
| "add64 PlusInf y = PlusInf"
| "add64 MinusInf y = MinusInf"
| "add64 x PlusInf = PlusInf"
| "add64 x MinusInf = MinusInf"

fun mul64 :: "float64 \<Rightarrow> float64 \<Rightarrow> float64" where
  "mul64 (Finite a) (Finite b) = round64 (a * b)"
| "mul64 NaN y = NaN"
| "mul64 x NaN = NaN"
| "mul64 (Finite a) PlusInf = (if a = 0 then NaN else if 0 < a then PlusInf else MinusInf)"
| "mul64 (Finite a) MinusInf = (if a = 0 then NaN else if 0 < a then MinusInf else PlusInf)"
| "mul64 PlusInf (Finite b) = (if b = 0 then NaN else if 0 < b then PlusInf else MinusInf)"
| "mul64 MinusInf (Finite b) = (if b = 0 then NaN else if 0 < b then MinusInf else PlusInf)"
| "mul64 PlusInf PlusInf = PlusInf"
| "mul64 MinusInf MinusInf = PlusInf"
| "mul64 PlusInf MinusInf = MinusInf"
| "mul64 MinusInf PlusInf = MinusInf"

fun sqrt64 :: "float64 \<Rightarrow> float64" where
  "sqrt64 (Finite a) = (if a < 0 then NaN else round64 (sqrt a))"
| "sqrt64 PlusInf = PlusInf"
| "sqrt64 MinusInf = NaN"
| "sqrt64 NaN = NaN"

text \<open>
  The difference of two arrays of two numbers, and the norm of an array of two numbers:
  the square root of the sum of the two squares, each operation rounded.
\<close>

definition float_subtract :: "point \<Rightarrow> point \<Rightarrow> float64 \<times> float64" where
  "float_subtract a b = (round64 (fst a - fst b), round64 (snd a - snd b))"

definition float_norm :: "float64 \<times> float64 \<Rightarrow> float64" where
  "float_norm v = sqrt64 (add64 (mul64 (fst v) (fst v)) (mul64 (snd v) (snd v)))"

section \<open>A small run\<close>

text \<open>
  Stand-ins for the libraries, for worked examples: a loader that returns the same two
  participants for training and for testing, a healthy one and a bipolar one, and counts
  its calls in the world, a training that counts its calls too, a regressor that predicts
  the anchor of each participant, arithmetic in \<^verbatim>\<open>float64\<close>, and a table whose rows are
  views.
\<close>

definition sample_healthy :: participant where
  "sample_healthy = \<lparr>idNumber = 1, data = [[0, 0], [1, 1]], diagnosis = 0\<rparr>"

definition sample_bipolar :: participant where
  "sample_bipolar = \<lparr>idNumber = 2, data = [[1, 0], [0, 1]], diagnosis = 1\<rparr>"

definition sample_libraries :: "(nat, unit) externals" where
  "sample_libraries =
     \<lparr>random_seed = (\<lambda>n w. 0),
      np_random_seed = (\<lambda>n w. w),
      buildData = (\<lambda>n path training groups w.
                     (Inr ([sample_healthy, sample_bipolar], [sample_healthy, sample_bipolar]), Suc w)),
      stream2sig = (\<lambda>s ord. Inr (concat s)),
      forest_fit = (\<lambda>x y w. (Inr (), Suc w)),
      predict = (\<lambda>reg x. Inr (map (\<lambda>sg. if sg = [0, 0, 1, 1] then (1, 0) else (0, 1)) x)),
      accuracy_score = (\<lambda>y_true y_pred. Inr (if y_true = y_pred then 1 else 0)),
      roc_auc_score = (\<lambda>y_true y_score. Inr (if y_true = y_score then 1 else 1 / 2)),
      subtract = float_subtract,
      linalg_norm = float_norm,
      loc_view = (\<lambda>results row. True)\<rparr>"

text \<open>The same libraries, with a metric that raises.\<close>

definition failing_libraries :: "(nat, unit) externals" where
  "failing_libraries = sample_libraries\<lparr>roc_auc_score := (\<lambda>y_true y_score. Inl ValueError)\<rparr>"

text \<open>The same libraries, with a table whose rows are copies.\<close>

definition copying_libraries :: "(nat, unit) externals" where
  "copying_libraries = sample_libraries\<lparr>loc_view := (\<lambda>results row. False)\<rparr>"



section \<open>The loop of findMin\<close>














text \<open>Whatever the library computes, the loop returns a point of a non-empty list.\<close>

lemma findMin_loop_in_set:
  "snd m \<in> set B \<or> eq64 (fst m) (Finite (- 1)) \<Longrightarrow> A \<noteq> [] \<Longrightarrow>
   snd (findMin_loop ext p A m) \<in> set (B @ A)"
proof (induction A arbitrary: B m)
  case Nil
  then show ?case by simp
next
  case (Cons p0 A)
  let ?m = "if eq64 (fst m) (Finite (- 1)) \<or> gt64 (fst m) (linalg_norm ext (subtract ext p0 p))
            then (linalg_norm ext (subtract ext p0 p), p0) else m"
  have here: "snd ?m \<in> set (B @ [p0])" using Cons.prems(1) by auto
  show ?case
  proof (cases "A = []")
    case True
    then show ?thesis using here by (simp add: Let_def)
  next
    case False
    have "snd (findMin_loop ext p A ?m) \<in> set ((B @ [p0]) @ A)"
      using Cons.IH [of ?m "B @ [p0]"] here False by blast
    then show ?thesis by (simp add: Let_def)
  qed
qed

lemma findMin_in_set: "A \<noteq> [] \<Longrightarrow> findMin ext p A \<in> set A"
  using findMin_loop_in_set [of "(Finite (- 1), (0, 0))" "[]" A ext p] by (simp add: findMin_def)



section \<open>Rounding to float64\<close>

lemma pow2_powr: "pow2 k = 2 powr (of_int k)"
proof (cases "0 \<le> k")
  case True
  then show ?thesis by (simp add: pow2_def powr_realpow [symmetric])
next
  case False
  then have "real (nat (- k)) = - of_int k" by simp
  then have "(2::real) ^ nat (- k) = 2 powr (- of_int k)"
    by (metis powr_realpow zero_less_numeral)
  then show ?thesis using False by (simp add: pow2_def powr_minus_divide)
qed

lemma pow2_pos: "0 < pow2 k"
  by (simp add: pow2_powr)

lemma exponent64_eval:
  assumes "pow2 e \<le> \<bar>x\<bar>" "\<bar>x\<bar> < pow2 (e + 1)" "- 1022 \<le> e"
  shows "exponent64 x = e"
proof -
  have pos: "0 < \<bar>x\<bar>" using assms(1) pow2_pos [of e] by linarith
  have "\<lfloor>Transcendental.log 2 \<bar>x\<bar>\<rfloor> = e"
    using assms(1,2) pos by (simp add: floor_log_eq_powr_iff pow2_powr)
  then show ?thesis using assms(3) by (simp add: exponent64_def)
qed

lemma rne_eval: "of_int n - 1 / 2 < x \<Longrightarrow> x < of_int n + 1 / 2 \<Longrightarrow> rne x = n"
proof -
  assume a: "of_int n - 1 / 2 < x" "x < of_int n + 1 / 2"
  show ?thesis
  proof (cases "of_int n \<le> x")
    case True
    then have "\<lfloor>x\<rfloor> = n" using a(2) by linarith
    then show ?thesis using a(2) by (simp add: rne_def Let_def)
  next
    case False
    then have f: "\<lfloor>x\<rfloor> = n - 1" using a(1) by linarith
    then show ?thesis using a(1) by (simp add: rne_def Let_def)
  qed
qed



lemma round64_eval:
  assumes "pow2 e \<le> \<bar>x\<bar>" "\<bar>x\<bar> < pow2 (e + 1)" "- 1022 \<le> e"
    and "of_int n - 1 / 2 < x / pow2 (e - 52)" "x / pow2 (e - 52) < of_int n + 1 / 2"
    and "\<bar>of_int n * pow2 (e - 52)\<bar> < 2 ^ 1024"
  shows "round64 x = Finite (of_int n * pow2 (e - 52))"
proof -
  have e: "exponent64 x = e" using assms(1-3) by (rule exponent64_eval)
  have "0 < \<bar>x\<bar>" using assms(1) pow2_pos [of e] by linarith
  then have nz: "x \<noteq> 0" by simp
  have r: "rne (x / pow2 (e - 52)) = n" using assms(4,5) by (rule rne_eval)
  show ?thesis using nz assms(6) by (simp add: round64_def e r Let_def)
qed


lemma round64_sqrt_eval:
  assumes "(pow2 e)\<^sup>2 \<le> X" "X < (pow2 (e + 1))\<^sup>2" "- 1022 \<le> e"
    and "0 < n"
    and "((of_int n - 1 / 2) * pow2 (e - 52))\<^sup>2 < X"
    and "X < ((of_int n + 1 / 2) * pow2 (e - 52))\<^sup>2"
    and "\<bar>of_int n * pow2 (e - 52)\<bar> < 2 ^ 1024"
  shows "round64 (sqrt X) = Finite (of_int n * pow2 (e - 52))"
proof -
  have X: "0 \<le> X" using assms(1) by (meson order_trans zero_le_power2)
  have s0: "0 \<le> sqrt X" using X by simp
  have 1: "pow2 e \<le> \<bar>sqrt X\<bar>"
    using assms(1) pow2_pos [of e] s0 by (simp add: real_le_rsqrt)
  have 2: "\<bar>sqrt X\<bar> < pow2 (e + 1)"
    using assms(2) pow2_pos [of "e + 1"] s0 by (simp add: real_less_lsqrt)
  have lo: "0 \<le> (of_int n - 1 / 2) * pow2 (e - 52)"
    using assms(4) pow2_pos [of "e - 52"] by simp
  have "(of_int n - 1 / 2) * pow2 (e - 52) < sqrt X"
    using assms(5) lo by (simp add: real_less_rsqrt)
  then have 3: "of_int n - 1 / 2 < sqrt X / pow2 (e - 52)"
    using pow2_pos [of "e - 52"] by (simp add: pos_less_divide_eq)
  have hi: "0 \<le> (of_int n + 1 / 2) * pow2 (e - 52)"
    using assms(4) pow2_pos [of "e - 52"] by simp
  have "sqrt X < (of_int n + 1 / 2) * pow2 (e - 52)"
    using assms(6) hi by (simp add: real_less_lsqrt)
  then have 4: "sqrt X / pow2 (e - 52) < of_int n + 1 / 2"
    using pow2_pos [of "e - 52"] by (simp add: pos_divide_less_eq)
  show ?thesis using round64_eval [OF 1 2 assms(3) 3 4 assms(7)] .
qed

lemma round64_zero: "round64 0 = Finite 0"
  by (simp add: round64_def)









lemma sample_distance:
  "computed_distance sample_libraries p q = float_norm (float_subtract q p)"
  by (simp add: computed_distance_def sample_libraries_def)

section \<open>Distances computed in float64\<close>








lemma healthy_distance_0:
  "float_norm (float_subtract (1, 0) (1, 0)) = Finite (0)"
proof -
  have dx: "round64 (1 - 1) = Finite 0"
    by (simp add: round64_zero)
  have dy: "round64 (0 - 0) = Finite 0"
    by (simp add: round64_zero)
  have sx: "round64 ((0) * (0)) = Finite 0"
    by (simp add: round64_zero)
  have sy: "round64 ((0) * (0)) = Finite 0"
    by (simp add: round64_zero)
  have sm: "round64 ((0) + (0)) = Finite 0"
    by (simp add: round64_zero)
  have sq: "round64 (sqrt 0) = Finite 0"
    by (simp add: round64_zero)
  have nn: "\<not> (0) < (0::real)"
    by simp
  show ?thesis
    by (simp only: float_norm_def float_subtract_def fst_conv snd_conv dx dy mul64.simps
          sx sy add64.simps sm sqrt64.simps nn if_False sq)
qed

lemma healthy_distance_1:
  "float_norm (float_subtract (0, 1) (1, 0)) = Finite (6369051672525773 / 2 ^ 52)"
proof -
  have dx: "round64 (0 - 1) = Finite (- 1)"
    using round64_eval [of 0 "0 - 1" "- 4503599627370496"]
    by (simp add: pow2_def)
  have dy: "round64 (1 - 0) = Finite (1)"
    using round64_eval [of 0 "1 - 0" 4503599627370496]
    by (simp add: pow2_def)
  have sx: "round64 ((- 1) * (- 1)) = Finite (1)"
    using round64_eval [of 0 "(- 1) * (- 1)" 4503599627370496]
    by (simp add: pow2_def)
  have sy: "round64 ((1) * (1)) = Finite (1)"
    using round64_eval [of 0 "(1) * (1)" 4503599627370496]
    by (simp add: pow2_def)
  have sm: "round64 ((1) + (1)) = Finite (2)"
    using round64_eval [of 1 "(1) + (1)" 4503599627370496]
    by (simp add: pow2_def)
  have sq: "round64 (sqrt (2)) = Finite (6369051672525773 / 2 ^ 52)"
    using round64_sqrt_eval [of 0 "2" 6369051672525773]
    by (simp add: pow2_def power2_eq_square)
  have nn: "\<not> (2) < (0::real)"
    by simp
  show ?thesis
    by (simp only: float_norm_def float_subtract_def fst_conv snd_conv dx dy mul64.simps
          sx sy add64.simps sm sqrt64.simps nn if_False sq)
qed

lemma healthy_distance_2:
  "float_norm (float_subtract (- 1592262918131443 / 2 ^ 51, - 1592262918131443 / 2 ^ 51) (1, 0)) = Finite (4160783518353059 / 2 ^ 51)"
proof -
  have dx: "round64 (- 1592262918131443 / 2 ^ 51 - 1) = Finite (- 3844062731816691 / 2 ^ 51)"
    using round64_eval [of 0 "- 1592262918131443 / 2 ^ 51 - 1" "- 7688125463633382"]
    by (simp add: pow2_def)
  have dy: "round64 (- 1592262918131443 / 2 ^ 51 - 0) = Finite (- 1592262918131443 / 2 ^ 51)"
    using round64_eval [of "- 1" "- 1592262918131443 / 2 ^ 51 - 0" "- 6369051672525772"]
    by (simp add: pow2_def)
  have sx: "round64 ((- 3844062731816691 / 2 ^ 51) * (- 3844062731816691 / 2 ^ 51)) = Finite (3281112778395379 / 2 ^ 50)"
    using round64_eval [of 1 "(- 3844062731816691 / 2 ^ 51) * (- 3844062731816691 / 2 ^ 51)" 6562225556790758]
    by (simp add: pow2_def)
  have sy: "round64 ((- 1592262918131443 / 2 ^ 51) * (- 1592262918131443 / 2 ^ 51)) = Finite (4503599627370495 / 2 ^ 53)"
    using round64_eval [of "- 2" "(- 1592262918131443 / 2 ^ 51) * (- 1592262918131443 / 2 ^ 51)" 9007199254740990]
    by (simp add: pow2_def)
  have sm: "round64 ((3281112778395379 / 2 ^ 50) + (4503599627370495 / 2 ^ 53)) = Finite (3844062731816691 / 2 ^ 50)"
    using round64_eval [of 1 "(3281112778395379 / 2 ^ 50) + (4503599627370495 / 2 ^ 53)" 7688125463633382]
    by (simp add: pow2_def)
  have sq: "round64 (sqrt (3844062731816691 / 2 ^ 50)) = Finite (4160783518353059 / 2 ^ 51)"
    using round64_sqrt_eval [of 0 "3844062731816691 / 2 ^ 50" 8321567036706118]
    by (simp add: pow2_def power2_eq_square)
  have nn: "\<not> (3844062731816691 / 2 ^ 50) < (0::real)"
    by simp
  show ?thesis
    by (simp only: float_norm_def float_subtract_def fst_conv snd_conv dx dy mul64.simps
          sx sy add64.simps sm sqrt64.simps nn if_False sq)
qed

lemma bipolar_distance_0:
  "float_norm (float_subtract (1, 0) (0, 1)) = Finite (6369051672525773 / 2 ^ 52)"
proof -
  have dx: "round64 (1 - 0) = Finite (1)"
    using round64_eval [of 0 "1 - 0" 4503599627370496]
    by (simp add: pow2_def)
  have dy: "round64 (0 - 1) = Finite (- 1)"
    using round64_eval [of 0 "0 - 1" "- 4503599627370496"]
    by (simp add: pow2_def)
  have sx: "round64 ((1) * (1)) = Finite (1)"
    using round64_eval [of 0 "(1) * (1)" 4503599627370496]
    by (simp add: pow2_def)
  have sy: "round64 ((- 1) * (- 1)) = Finite (1)"
    using round64_eval [of 0 "(- 1) * (- 1)" 4503599627370496]
    by (simp add: pow2_def)
  have sm: "round64 ((1) + (1)) = Finite (2)"
    using round64_eval [of 1 "(1) + (1)" 4503599627370496]
    by (simp add: pow2_def)
  have sq: "round64 (sqrt (2)) = Finite (6369051672525773 / 2 ^ 52)"
    using round64_sqrt_eval [of 0 "2" 6369051672525773]
    by (simp add: pow2_def power2_eq_square)
  have nn: "\<not> (2) < (0::real)"
    by simp
  show ?thesis
    by (simp only: float_norm_def float_subtract_def fst_conv snd_conv dx dy mul64.simps
          sx sy add64.simps sm sqrt64.simps nn if_False sq)
qed

lemma bipolar_distance_1:
  "float_norm (float_subtract (0, 1) (0, 1)) = Finite (0)"
proof -
  have dx: "round64 (0 - 0) = Finite 0"
    by (simp add: round64_zero)
  have dy: "round64 (1 - 1) = Finite 0"
    by (simp add: round64_zero)
  have sx: "round64 ((0) * (0)) = Finite 0"
    by (simp add: round64_zero)
  have sy: "round64 ((0) * (0)) = Finite 0"
    by (simp add: round64_zero)
  have sm: "round64 ((0) + (0)) = Finite 0"
    by (simp add: round64_zero)
  have sq: "round64 (sqrt 0) = Finite 0"
    by (simp add: round64_zero)
  have nn: "\<not> (0) < (0::real)"
    by simp
  show ?thesis
    by (simp only: float_norm_def float_subtract_def fst_conv snd_conv dx dy mul64.simps
          sx sy add64.simps sm sqrt64.simps nn if_False sq)
qed

lemma bipolar_distance_2:
  "float_norm (float_subtract (- 1592262918131443 / 2 ^ 51, - 1592262918131443 / 2 ^ 51) (0, 1)) = Finite (4160783518353059 / 2 ^ 51)"
proof -
  have dx: "round64 (- 1592262918131443 / 2 ^ 51 - 0) = Finite (- 1592262918131443 / 2 ^ 51)"
    using round64_eval [of "- 1" "- 1592262918131443 / 2 ^ 51 - 0" "- 6369051672525772"]
    by (simp add: pow2_def)
  have dy: "round64 (- 1592262918131443 / 2 ^ 51 - 1) = Finite (- 3844062731816691 / 2 ^ 51)"
    using round64_eval [of 0 "- 1592262918131443 / 2 ^ 51 - 1" "- 7688125463633382"]
    by (simp add: pow2_def)
  have sx: "round64 ((- 1592262918131443 / 2 ^ 51) * (- 1592262918131443 / 2 ^ 51)) = Finite (4503599627370495 / 2 ^ 53)"
    using round64_eval [of "- 2" "(- 1592262918131443 / 2 ^ 51) * (- 1592262918131443 / 2 ^ 51)" 9007199254740990]
    by (simp add: pow2_def)
  have sy: "round64 ((- 3844062731816691 / 2 ^ 51) * (- 3844062731816691 / 2 ^ 51)) = Finite (3281112778395379 / 2 ^ 50)"
    using round64_eval [of 1 "(- 3844062731816691 / 2 ^ 51) * (- 3844062731816691 / 2 ^ 51)" 6562225556790758]
    by (simp add: pow2_def)
  have sm: "round64 ((4503599627370495 / 2 ^ 53) + (3281112778395379 / 2 ^ 50)) = Finite (3844062731816691 / 2 ^ 50)"
    using round64_eval [of 1 "(4503599627370495 / 2 ^ 53) + (3281112778395379 / 2 ^ 50)" 7688125463633382]
    by (simp add: pow2_def)
  have sq: "round64 (sqrt (3844062731816691 / 2 ^ 50)) = Finite (4160783518353059 / 2 ^ 51)"
    using round64_sqrt_eval [of 0 "3844062731816691 / 2 ^ 50" 8321567036706118]
    by (simp add: pow2_def power2_eq_square)
  have nn: "\<not> (3844062731816691 / 2 ^ 50) < (0::real)"
    by simp
  show ?thesis
    by (simp only: float_norm_def float_subtract_def fst_conv snd_conv dx dy mul64.simps
          sx sy add64.simps sm sqrt64.simps nn if_False sq)
qed

lemma third_anchor_norm:
  "float_norm (float_subtract (- 1592262918131443 / 2 ^ 51, - 1592262918131443 / 2 ^ 51) (0, 0)) = Finite (9007199254740991 / 2 ^ 53)"
proof -
  have dx: "round64 (- 1592262918131443 / 2 ^ 51 - 0) = Finite (- 1592262918131443 / 2 ^ 51)"
    using round64_eval [of "- 1" "- 1592262918131443 / 2 ^ 51 - 0" "- 6369051672525772"]
    by (simp add: pow2_def)
  have dy: "round64 (- 1592262918131443 / 2 ^ 51 - 0) = Finite (- 1592262918131443 / 2 ^ 51)"
    using round64_eval [of "- 1" "- 1592262918131443 / 2 ^ 51 - 0" "- 6369051672525772"]
    by (simp add: pow2_def)
  have sx: "round64 ((- 1592262918131443 / 2 ^ 51) * (- 1592262918131443 / 2 ^ 51)) = Finite (4503599627370495 / 2 ^ 53)"
    using round64_eval [of "- 2" "(- 1592262918131443 / 2 ^ 51) * (- 1592262918131443 / 2 ^ 51)" 9007199254740990]
    by (simp add: pow2_def)
  have sy: "round64 ((- 1592262918131443 / 2 ^ 51) * (- 1592262918131443 / 2 ^ 51)) = Finite (4503599627370495 / 2 ^ 53)"
    using round64_eval [of "- 2" "(- 1592262918131443 / 2 ^ 51) * (- 1592262918131443 / 2 ^ 51)" 9007199254740990]
    by (simp add: pow2_def)
  have sm: "round64 ((4503599627370495 / 2 ^ 53) + (4503599627370495 / 2 ^ 53)) = Finite (4503599627370495 / 2 ^ 52)"
    using round64_eval [of "- 1" "(4503599627370495 / 2 ^ 53) + (4503599627370495 / 2 ^ 53)" 9007199254740990]
    by (simp add: pow2_def)
  have sq: "round64 (sqrt (4503599627370495 / 2 ^ 52)) = Finite (9007199254740991 / 2 ^ 53)"
    using round64_sqrt_eval [of "- 1" "4503599627370495 / 2 ^ 52" 9007199254740991]
    by (simp add: pow2_def power2_eq_square)
  have nn: "\<not> (4503599627370495 / 2 ^ 52) < (0::real)"
    by simp
  show ?thesis
    by (simp only: float_norm_def float_subtract_def fst_conv snd_conv dx dy mul64.simps
          sx sy add64.simps sm sqrt64.simps nn if_False sq)
qed

section \<open>The lists of fit and test\<close>

lemma fit_xy_acc:
  "fit_xy ext c thr ord x y = Inr (x', y') \<Longrightarrow>
   \<exists>xs ys. x' = x @ xs \<and> y' = y @ ys \<and> length xs = length c \<and> length ys = length c
     \<and> (\<forall>i < length c. stream2sig ext (data (c ! i)) ord = Inr (xs ! i)
                        \<and> getitem thr (diagnosis (c ! i)) = Inr (ys ! i))"
proof (induction c arbitrary: x y)
  case Nil
  then show ?case by simp
next
  case (Cons X c)
  from Cons.prems obtain sg t where sg: "stream2sig ext (data X) ord = Inr sg"
    and t: "getitem thr (diagnosis X) = Inr t"
    and rest: "fit_xy ext c thr ord (x @ [sg]) (y @ [t]) = Inr (x', y')"
    by (auto split: sum.splits)
  from Cons.IH [OF rest] obtain xs ys where r: "x' = (x @ [sg]) @ xs" "y' = (y @ [t]) @ ys"
    "length xs = length c" "length ys = length c"
    "\<forall>i < length c. stream2sig ext (data (c ! i)) ord = Inr (xs ! i)
                        \<and> getitem thr (diagnosis (c ! i)) = Inr (ys ! i)"
    by blast
  have "\<forall>i < length (X # c). stream2sig ext (data ((X # c) ! i)) ord = Inr ((sg # xs) ! i)
                        \<and> getitem thr (diagnosis ((X # c) ! i)) = Inr ((t # ys) ! i)"
    using sg t r(5) by (auto simp: nth_Cons split: nat.splits)
  then show ?case using r(1-4)
    by (intro exI [of _ "sg # xs"] exI [of _ "t # ys"]) simp
qed

lemma fit_xy_total:
  "\<forall>X \<in> set c. (\<exists>sg. stream2sig ext (data X) ord = Inr sg) \<and> (\<exists>t. getitem thr (diagnosis X) = Inr t)
   \<Longrightarrow> \<exists>r. fit_xy ext c thr ord x y = Inr r"
proof (induction c arbitrary: x y)
  case Nil
  then show ?case by simp
next
  case (Cons X c)
  then obtain sg t where "stream2sig ext (data X) ord = Inr sg" "getitem thr (diagnosis X) = Inr t"
    by auto
  then show ?case using Cons.IH [of "x @ [sg]" "y @ [t]"] Cons.prems by simp
qed

lemma test_xy_fit_xy: "test_xy ext c thr ord x y = fit_xy ext c thr ord x y"
  by (induction c arbitrary: x y) (auto split: sum.splits)

lemma getitem_valid:
  "- int (length xs) \<le> i \<Longrightarrow> i < int (length xs) \<Longrightarrow> \<exists>t. getitem xs i = Inr t \<and> t \<in> set xs"
  by (auto simp: getitem_def Let_def)

lemma getitem_Inr_in_set: "getitem xs i = Inr t \<Longrightarrow> t \<in> set xs"
  by (auto simp: getitem_def Let_def split: if_splits)




lemma index_from_Inl: "index_from k xs v = Inl e \<longleftrightarrow> e = ValueError \<and> v \<notin> set xs"
  by (induction xs arbitrary: k) auto

lemma list_index_Inl: "list_index xs v = Inl e \<longleftrightarrow> e = ValueError \<and> v \<notin> set xs"
  by (simp add: list_index_def index_from_Inl)

lemma list_index_member: "v \<in> set xs \<Longrightarrow> \<exists>n. list_index xs v = Inr n"
  using list_index_Inl [of xs v] by (cases "list_index xs v") auto

lemma labels_of_total: "set vals \<subseteq> set thr \<Longrightarrow> \<exists>ls. labels_of thr vals = Inr ls"
proof (induction vals)
  case Nil
  then show ?case by simp
next
  case (Cons v vals)
  then obtain n ls where "list_index thr v = Inr n" "labels_of thr vals = Inr ls"
    using list_index_member [of v thr] by auto
  then show ?case by simp
qed


lemma labels_of_Inl:
  "labels_of thr vals = Inl e \<Longrightarrow> e = ValueError \<and> \<not> set vals \<subseteq> set thr"
proof (induction vals)
  case Nil
  then show ?case by simp
next
  case (Cons v vals)
  then show ?case by (auto split: sum.splits simp: list_index_Inl)
qed

lemma fit_xy_targets:
  assumes "fit_xy ext c thr ord [] [] = Inr (x, y)"
  shows "set y \<subseteq> set thr"
proof
  fix t assume "t \<in> set y"
  then obtain i where i: "i < length y" "y ! i = t" by (auto simp: in_set_conv_nth)
  from fit_xy_acc [OF assms] have "length y = length c"
    "\<forall>i < length c. getitem thr (diagnosis (c ! i)) = Inr (y ! i)" by auto
  then have "getitem thr (diagnosis (c ! i)) = Inr t" using i by auto
  then show "t \<in> set thr" by (rule getitem_Inr_in_set)
qed

text \<open>
  Claim C9. When the threshold is not empty and every diagnosis is a valid index into it,
  every target is a row of the threshold and so is every nearest anchor \<open>findMin\<close> picks,
  whatever the regressor predicted; hence both lists of label lookups succeed.
\<close>

theorem label_lookups_succeed:
  assumes ne: "thr \<noteq> []"
    and idx: "\<forall>X \<in> set collection. - int (length thr) \<le> diagnosis X \<and> diagnosis X < int (length thr)"
    and sigs: "\<forall>X \<in> set collection. \<exists>sg. stream2sig ext (data X) ord = Inr sg"
  shows "\<exists>x y. test_xy ext collection thr ord [] [] = Inr (x, y)
           \<and> set y \<subseteq> set thr
           \<and> (\<exists>y_labels. labels_of thr y = Inr y_labels)
           \<and> (\<forall>predicted_raw.
                 set (map (\<lambda>prediction. findMin ext prediction thr) predicted_raw) \<subseteq> set thr
                 \<and> (\<exists>predicted_labels.
                       labels_of thr (map (\<lambda>prediction. findMin ext prediction thr) predicted_raw)
                         = Inr predicted_labels))"
proof -
  have "\<forall>X \<in> set collection. (\<exists>sg. stream2sig ext (data X) ord = Inr sg)
          \<and> (\<exists>t. getitem thr (diagnosis X) = Inr t)"
    using sigs idx getitem_valid by blast
  from fit_xy_total [OF this, of "[]" "[]"] obtain x y
    where r: "fit_xy ext collection thr ord [] [] = Inr (x, y)" by fastforce
  have y: "set y \<subseteq> set thr" using fit_xy_targets [OF r] .
  have p: "set (map (\<lambda>prediction. findMin ext prediction thr) predicted_raw) \<subseteq> set thr"
    for predicted_raw using findMin_in_set [OF ne] by auto
  show ?thesis
    using r y p labels_of_total [OF y] labels_of_total [OF p]
    by (auto simp: test_xy_fit_xy)
qed


section \<open>Nearest anchors in float64\<close>

lemma float_findMin_healthy:
  assumes "subtract ext = float_subtract" "linalg_norm ext = float_norm"
  shows "findMin ext (1, 0) threshold = (1, 0)"
  unfolding findMin_def threshold_def findMin_loop.simps Let_def assms
    healthy_distance_0 healthy_distance_1 healthy_distance_2
  by simp

lemma float_findMin_bipolar:
  assumes "subtract ext = float_subtract" "linalg_norm ext = float_norm"
  shows "findMin ext (0, 1) threshold = (0, 1)"
  unfolding findMin_def threshold_def findMin_loop.simps Let_def assms
    bipolar_distance_0 bipolar_distance_1 bipolar_distance_2
  by simp




lemma sample_numpy:
  "subtract sample_libraries = float_subtract" "linalg_norm sample_libraries = float_norm"
  by (simp_all add: sample_libraries_def)

lemma failing_numpy:
  "subtract failing_libraries = float_subtract" "linalg_norm failing_libraries = float_norm"
  by (simp_all add: failing_libraries_def sample_libraries_def)

lemma copying_numpy:
  "subtract copying_libraries = float_subtract" "linalg_norm copying_libraries = float_norm"
  by (simp_all add: copying_libraries_def sample_libraries_def)





lemma third_anchor_inside:
  "1 - 1 / 2 ^ 53 < euclidean_norm (threshold ! 2)" "euclidean_norm (threshold ! 2) < 1"
proof -
  have sq: "euclidean_norm (threshold ! 2)
              = sqrt (2 * (1592262918131443 / 2 ^ 51)\<^sup>2)"
    by (simp add: euclidean_norm_def euclidean_def threshold_def)
  show "1 - 1 / 2 ^ 53 < euclidean_norm (threshold ! 2)"
    unfolding sq by (rule real_less_rsqrt) (simp add: power2_eq_square)
  show "euclidean_norm (threshold ! 2) < 1"
    unfolding sq by (rule real_less_lsqrt) (simp_all add: power2_eq_square)
qed

section \<open>Nearest anchor: worked examples\<close>





lemma round64_sqrt_2: "round64 (sqrt 2) = Finite (6369051672525773 / 2 ^ 52)"
  using round64_sqrt_eval [of 0 2 6369051672525773]
  by (simp add: pow2_def power2_eq_square)

lemma round64_minus_inverse:
  "round64 (- 1 / (6369051672525773 / 2 ^ 52)) = Finite (- 1592262918131443 / 2 ^ 51)"
  using round64_eval [of "- 1" "- 1 / (6369051672525773 / 2 ^ 52)" "- 6369051672525772"]
  by (simp add: pow2_def)

text \<open>
  Claim C3, amended. The threshold of the main script is a fixed list of three points of
  the plane, one for each diagnosis \<open>0\<close>, \<open>1\<close> and \<open>2\<close>: \<open>(1, 0)\<close>, \<open>(0, 1)\<close> and \<open>(d, d)\<close>,
  where \<open>d = -1592262918131443 / 2^51\<close> is what \<open>-1\<close> divided by the square root of 2 comes
  to in \<^verbatim>\<open>float64\<close>. The first two have Euclidean norm 1; the third lies inside the unit
  circle, its norm being less than 1 and more than \<open>1 - 2^-53\<close>.
\<close>

theorem threshold_near_unit_circle:
  "threshold = [(1, 0), (0, 1), (- 1592262918131443 / 2 ^ 51, - 1592262918131443 / 2 ^ 51)]
     \<and> getitem threshold 0 = Inr (1, 0)
     \<and> getitem threshold 1 = Inr (0, 1)
     \<and> getitem threshold 2 = Inr (- 1592262918131443 / 2 ^ 51, - 1592262918131443 / 2 ^ 51)
     \<and> round64 (sqrt 2) = Finite (6369051672525773 / 2 ^ 52)
     \<and> round64 (- 1 / (6369051672525773 / 2 ^ 52)) = Finite (- 1592262918131443 / 2 ^ 51)
     \<and> euclidean_norm (threshold ! 0) = 1
     \<and> euclidean_norm (threshold ! 1) = 1
     \<and> 1 - 1 / 2 ^ 53 < euclidean_norm (threshold ! 2)
     \<and> euclidean_norm (threshold ! 2) < 1"
proof -
  have n: "euclidean_norm (threshold ! 0) = 1" "euclidean_norm (threshold ! 1) = 1"
    by (simp_all add: euclidean_norm_def euclidean_def threshold_def)
  have g: "getitem threshold 0 = Inr (1, 0)" "getitem threshold 1 = Inr (0, 1)"
    "getitem threshold 2 = Inr (- 1592262918131443 / 2 ^ 51, - 1592262918131443 / 2 ^ 51)"
    by (simp_all add: getitem_def threshold_def)
  show ?thesis
    by (intro conjI threshold_def g round64_sqrt_2 round64_minus_inverse n third_anchor_inside)
qed

text \<open>
  The claim C3 as stated fails: the third anchor does not have norm 1, neither in the
  Euclidean metric nor as \<^verbatim>\<open>np.linalg.norm\<close> computes it.
\<close>

theorem third_anchor_off_unit_circle:
  "euclidean_norm (threshold ! 2) < 1
     \<and> computed_distance sample_libraries (0, 0) (threshold ! 2)
         = Finite (9007199254740991 / 2 ^ 53)"
proof -
  have "computed_distance sample_libraries (0, 0) (threshold ! 2)
          = float_norm (float_subtract (- 1592262918131443 / 2 ^ 51, - 1592262918131443 / 2 ^ 51) (0, 0))"
    by (simp add: sample_distance threshold_def)
  then show ?thesis using third_anchor_inside(2) third_anchor_norm by simp
qed

lemma sample_test_xy:
  "test_xy sample_libraries [sample_healthy, sample_bipolar] threshold 2 [] []
     = Inr ([[0, 0, 1, 1], [1, 0, 0, 1]], [(1, 0), (0, 1)])"
  by (simp add: sample_libraries_def sample_healthy_def sample_bipolar_def threshold_def getitem_def)

lemma threshold_labels:
  "list_index threshold (1, 0) = Inr 0" "list_index threshold (0, 1) = Inr 1"
  by (simp_all add: threshold_def list_index_def)

lemma sample_test:
  "test sample_libraries [sample_healthy, sample_bipolar] () threshold 2 = Inr (1, 1)"
  unfolding test_def sample_test_xy
  by (simp add: sample_libraries_def float_findMin_healthy [OF sample_numpy, unfolded sample_libraries_def]
        float_findMin_bipolar [OF sample_numpy, unfolded sample_libraries_def] threshold_labels)

section \<open>Testing: worked examples\<close>


theorem label_lookups_succeed_witness:
  "threshold \<noteq> []
     \<and> (\<exists>x y. test_xy sample_libraries [sample_healthy, sample_bipolar] threshold 2 [] [] = Inr (x, y)
           \<and> (\<exists>y_labels. labels_of threshold y = Inr y_labels)
           \<and> (\<exists>predicted_labels.
                  labels_of threshold
                    (map (\<lambda>prediction. findMin sample_libraries prediction threshold) [(3, 4)])
                    = Inr predicted_labels))"
proof -
  have ne: "threshold \<noteq> []" by (simp add: threshold_def)
  have sigs: "\<forall>X \<in> set [sample_healthy, sample_bipolar].
                \<exists>sg. stream2sig sample_libraries (data X) 2 = Inr sg"
    by (simp add: sample_libraries_def)
  have idx: "\<forall>X \<in> set [sample_healthy, sample_bipolar].
               - int (length threshold) \<le> diagnosis X \<and> diagnosis X < int (length threshold)"
    by (simp add: threshold_def sample_healthy_def sample_bipolar_def)
  from label_lookups_succeed [OF ne idx sigs] ne show ?thesis by blast
qed






section \<open>Runs of the main script\<close>

lemma pairs_eq:
  "pairs = [(''healthy'', ''bipolar''), (''healthy'', ''borderline''), (''bipolar'', ''borderline'')]"
  by (simp add: pairs_def diagnosis_groups_def enumerate_eq_zip upt_rec)

lemma run_pairs_append:
  "run_pairs ext thr (ps @ qs) s =
     (case run_pairs ext thr ps s of
        (Some e, s') \<Rightarrow> (Some e, s')
      | (None, s') \<Rightarrow> run_pairs ext thr qs s')"
proof (induction ps arbitrary: s)
  case Nil
  then show ?case by simp
next
  case (Cons p ps)
  obtain g1 g2 where p: "p = (g1, g2)" by (cases p)
  show ?case using Cons.IH by (simp add: p split: prod.splits option.splits)
qed

lemma inner_loop_run:
  "inner_loop ext thr group1 gs s = run_pairs ext thr (map (\<lambda>group2. (group1, group2)) gs) s"
  by (induction gs arbitrary: s) (auto split: prod.splits option.splits)

lemma outer_loop_run:
  "outer_loop ext thr es s =
     run_pairs ext thr
       (concat (map (\<lambda>(i, group1). map (\<lambda>group2. (group1, group2)) (drop (i + 1) diagnosis_groups)) es)) s"
proof (induction es arbitrary: s)
  case Nil
  then show ?case by simp
next
  case (Cons a es)
  obtain i g1 where a: "a = (i, g1)" by (cases a)
  show ?case using Cons.IH
    by (simp add: a run_pairs_append inner_loop_run split: prod.splits option.splits)
qed

lemma main_run:
  "main ext w =
     (case run_pairs ext threshold pairs (initial ext w) of
        (Some e, s) \<Rightarrow> (Some e, s)
      | (None, s) \<Rightarrow> (None, print_results s))"
  by (simp add: main_def outer_loop_run pairs_def)

lemma iteration_cases:
  "iteration ext thr g1 g2 s =
     (case buildData ext 20 ''../data'' (7 / 10) (g1, g2) (world s) of
        (Inl e, w) \<Rightarrow>
          (Some e, s\<lparr>trace := trace s @ spec_load_events g1 g2, world := w\<rparr>)
      | (Inr (ts, os), w) \<Rightarrow>
     (case fit ext ts thr 2 w of
        (Inl e, w') \<Rightarrow>
          (Some e, s\<lparr>trace := trace s @ spec_load_events g1 g2 @ spec_fit_events ts,
                      world := w'\<rparr>)
      | (Inr reg, w') \<Rightarrow>
     (case test ext os reg thr 2 of
        Inl e \<Rightarrow>
          (Some e, s\<lparr>trace := trace s @ spec_load_events g1 g2 @ spec_fit_events ts
                                 @ spec_test_events os reg,
                      world := w'\<rparr>)
      | Inr (accuracy, auc) \<Rightarrow>
          (None, s\<lparr>accuracy_results := loc_setitem ext (accuracy_results s) g1 g2 accuracy,
                    auc_results := loc_setitem ext (auc_results s) g1 g2 auc,
                    trace := trace s @ spec_load_events g1 g2 @ spec_fit_events ts
                               @ spec_test_events os reg
                               @ spec_record_events g1 g2 accuracy auc,
                    world := w'\<rparr>))))"
  by (simp add: iteration_def Let_def log_def emit_def spec_load_events_def spec_fit_events_def
        spec_test_events_def spec_record_events_def
      split: prod.splits sum.splits)

lemma iteration_None:
  assumes "iteration ext thr g1 g2 s = (None, s')"
  shows "\<exists>ps. pass_ok ext thr (g1, g2) ps \<and> world_before ps = world s
           \<and> world s' = world_fitted ps
           \<and> trace s' = trace s @ pass_events (g1, g2) ps
           \<and> accuracy_results s' = loc_setitem ext (accuracy_results s) g1 g2 (pass_accuracy ps)
           \<and> auc_results s' = loc_setitem ext (auc_results s) g1 g2 (pass_auc ps)"
proof -
  obtain r1 w where b: "buildData ext 20 ''../data'' (7 / 10) (g1, g2) (world s) = (r1, w)"
    by (cases "buildData ext 20 ''../data'' (7 / 10) (g1, g2) (world s)")
  from assms b obtain ts os where r1: "r1 = Inr (ts, os)"
    by (cases r1) (auto simp: iteration_cases)
  obtain r2 w' where f: "fit ext ts thr 2 w = (r2, w')" by (cases "fit ext ts thr 2 w")
  from assms b r1 f obtain reg where r2: "r2 = Inr reg"
    by (cases r2) (auto simp: iteration_cases)
  from assms b r1 f r2 obtain accuracy auc where t: "test ext os reg thr 2 = Inr (accuracy, auc)"
    by (cases "test ext os reg thr 2") (auto simp: iteration_cases)
  have s': "s' = s\<lparr>accuracy_results := loc_setitem ext (accuracy_results s) g1 g2 accuracy,
                    auc_results := loc_setitem ext (auc_results s) g1 g2 auc,
                    trace := trace s @ spec_load_events g1 g2 @ spec_fit_events ts
                               @ spec_test_events os reg
                               @ spec_record_events g1 g2 accuracy auc,
                    world := w'\<rparr>"
    using assms b r1 f r2 t by (simp add: iteration_cases)
  let ?ps = "\<lparr>pass_ts = ts, pass_os = os, pass_reg = reg, pass_accuracy = accuracy,
              pass_auc = auc, world_before = world s, world_loaded = w, world_fitted = w'\<rparr>"
  have "pass_ok ext thr (g1, g2) ?ps" using b r1 f r2 t by (simp add: pass_ok_def)
  moreover have "trace s' = trace s @ pass_events (g1, g2) ?ps"
    by (simp add: s' pass_events_def)
  ultimately show ?thesis
    by (intro exI [of _ ?ps]) (simp add: s')
qed

lemma iteration_Some:
  assumes "iteration ext thr g1 g2 s = (Some e, s')"
  shows "accuracy_results s' = accuracy_results s \<and> auc_results s' = auc_results s
           \<and> ((\<exists>w. buildData ext 20 ''../data'' (7 / 10) (g1, g2) (world s) = (Inl e, w)
                    \<and> world s' = w
                    \<and> trace s' = trace s @ spec_load_events g1 g2)
                \<or> (\<exists>ts os w w'. buildData ext 20 ''../data'' (7 / 10) (g1, g2) (world s) = (Inr (ts, os), w)
                    \<and> fit ext ts thr 2 w = (Inl e, w')
                    \<and> world s' = w'
                    \<and> trace s' = trace s @ spec_load_events g1 g2 @ spec_fit_events ts)
                \<or> (\<exists>ts os w reg w'. buildData ext 20 ''../data'' (7 / 10) (g1, g2) (world s) = (Inr (ts, os), w)
                    \<and> fit ext ts thr 2 w = (Inr reg, w')
                    \<and> test ext os reg thr 2 = Inl e
                    \<and> world s' = w'
                    \<and> trace s' = trace s @ spec_load_events g1 g2 @ spec_fit_events ts
                                    @ spec_test_events os reg))"
proof -
  obtain r1 w where b: "buildData ext 20 ''../data'' (7 / 10) (g1, g2) (world s) = (r1, w)"
    by (cases "buildData ext 20 ''../data'' (7 / 10) (g1, g2) (world s)")
  show ?thesis
  proof (cases r1)
    case (Inl e1)
    then show ?thesis using assms b by (auto simp: iteration_cases)
  next
    case (Inr tsos)
    obtain ts os where tsos: "tsos = (ts, os)" by (cases tsos)
    obtain r2 w' where f: "fit ext ts thr 2 w = (r2, w')" by (cases "fit ext ts thr 2 w")
    show ?thesis
    proof (cases r2)
      case (Inl e2)
      then show ?thesis using assms b Inr tsos f by (auto simp: iteration_cases)
    next
      case r2: (Inr reg)
      show ?thesis
      proof (cases "test ext os reg thr 2")
        case (Inl e3)
        then show ?thesis using assms b Inr tsos f r2 by (auto simp: iteration_cases)
      next
        case t: (Inr au)
        then show ?thesis using assms b Inr tsos f r2
          by (cases au) (auto simp: iteration_cases)
      qed
    qed
  qed
qed

lemma loc_setitem_other:
  "cell \<noteq> (g1, g2) \<Longrightarrow> loc_setitem ext t g1 g2 v cell = t cell"
  by (simp add: loc_setitem_def)

lemma run_pairs_None:
  "run_pairs ext thr ps s = (None, s') \<Longrightarrow>
   \<exists>passes. passes_ok ext thr ps passes (world s)
     \<and> world s' = world_after (world s) passes
     \<and> trace s' = trace s @ passes_events ps passes
     \<and> (\<forall>cell. cell \<notin> set ps \<longrightarrow>
           accuracy_results s' cell = accuracy_results s cell
           \<and> auc_results s' cell = auc_results s cell)"
proof (induction ps arbitrary: s)
  case Nil
  then show ?case by (intro exI [of _ "[]"]) simp
next
  case (Cons p ps)
  obtain g1 g2 where p: "p = (g1, g2)" by (cases p)
  obtain r s1 where it: "iteration ext thr g1 g2 s = (r, s1)"
    by (cases "iteration ext thr g1 g2 s")
  have rn: "r = None" using Cons.prems it by (cases r) (simp_all add: p)
  have rest: "run_pairs ext thr ps s1 = (None, s')" using Cons.prems it rn by (simp add: p)
  from iteration_None [OF it [unfolded rn]] obtain q where
    q: "pass_ok ext thr (g1, g2) q" "world_before q = world s" "world s1 = world_fitted q"
    "trace s1 = trace s @ pass_events (g1, g2) q"
    "accuracy_results s1 = loc_setitem ext (accuracy_results s) g1 g2 (pass_accuracy q)"
    "auc_results s1 = loc_setitem ext (auc_results s) g1 g2 (pass_auc q)"
    by blast
  from Cons.IH [OF rest] obtain passes where
    v: "passes_ok ext thr ps passes (world s1)"
    "world s' = world_after (world s1) passes"
    "trace s' = trace s1 @ passes_events ps passes"
    and other: "\<And>cell. cell \<notin> set ps \<Longrightarrow>
           accuracy_results s' cell = accuracy_results s1 cell
           \<and> auc_results s' cell = auc_results s1 cell"
    by blast
  let ?passes = "q # passes"
  have 1: "passes_ok ext thr (p # ps) ?passes (world s)" using q(1,2,3) v(1) by (simp add: p)
  have 2: "world s' = world_after (world s) ?passes" using v(2) q(3) by simp
  have 3: "trace s' = trace s @ passes_events (p # ps) ?passes" using v(3) q(4) by (simp add: p)
  have 4: "\<forall>cell. cell \<notin> set (p # ps) \<longrightarrow>
           accuracy_results s' cell = accuracy_results s cell
           \<and> auc_results s' cell = auc_results s cell"
  proof (intro allI impI)
    fix cell assume c: "cell \<notin> set (p # ps)"
    then have "cell \<notin> set ps" "cell \<noteq> (g1, g2)" by (simp_all add: p)
    then show "accuracy_results s' cell = accuracy_results s cell
           \<and> auc_results s' cell = auc_results s cell"
      using other [of cell] q(5,6) by (simp add: loc_setitem_other)
  qed
  show ?case
    by (rule exI [of _ ?passes]) (intro conjI 1 2 3 4)
qed


lemma is_print_pass_events: "filter is_print (pass_events groups ps) = []"
  by (simp add: pass_events_def spec_load_events_def spec_fit_events_def spec_test_events_def
        spec_record_events_def)

lemma is_print_passes_events: "filter is_print (passes_events gs passes) = []"
  by (induction gs passes rule: passes_events.induct) (simp_all add: is_print_pass_events)

lemma is_print_steps:
  "filter is_print (spec_load_events g1 g2) = []"
  "filter is_print (spec_fit_events ts) = []"
  "filter is_print (spec_test_events os reg) = []"
  by (simp_all add: spec_load_events_def spec_fit_events_def spec_test_events_def)

lemma initial_fields:
  "accuracy_results (initial ext w) = (\<lambda>cell. None)" "auc_results (initial ext w) = (\<lambda>cell. None)"
  "trace (initial ext w) = []"
  by (simp_all add: initial_def)

lemma print_results_fields:
  "accuracy_results (print_results s) = accuracy_results s"
  "auc_results (print_results s) = auc_results s"
  "trace (print_results s) = trace s @ spec_print_events (accuracy_results s) (auc_results s)"
  "world (print_results s) = world s"
  by (simp_all add: print_results_def spec_print_events_def log_def emit_def Let_def)



section \<open>Exceptions\<close>

lemma fit_xy_first_failure:
  "i < length c \<Longrightarrow>
   \<forall>j < i. (\<exists>sg. stream2sig ext (data (c ! j)) ord = Inr sg)
            \<and> (\<exists>t. getitem thr (diagnosis (c ! j)) = Inr t) \<Longrightarrow>
   stream2sig ext (data (c ! i)) ord = Inl e \<Longrightarrow>
   fit_xy ext c thr ord x y = Inl e"
proof (induction c arbitrary: i x y)
  case Nil
  then show ?case by simp
next
  case (Cons X c)
  show ?case
  proof (cases i)
    case 0
    then show ?thesis using Cons.prems(3) by simp
  next
    case (Suc k)
    from Cons.prems(2) [rule_format, of 0] Suc obtain sg t where
      h: "stream2sig ext (data X) ord = Inr sg" "getitem thr (diagnosis X) = Inr t" by auto
    have k: "k < length c" using Cons.prems(1) Suc by simp
    have before: "\<forall>j < k. (\<exists>sg. stream2sig ext (data (c ! j)) ord = Inr sg)
            \<and> (\<exists>t. getitem thr (diagnosis (c ! j)) = Inr t)"
    proof (intro allI impI)
      fix j assume "j < k"
      then have "Suc j < i" using Suc by simp
      from Cons.prems(2) [rule_format, OF this]
      show "(\<exists>sg. stream2sig ext (data (c ! j)) ord = Inr sg)
            \<and> (\<exists>t. getitem thr (diagnosis (c ! j)) = Inr t)" by simp
    qed
    have fails: "stream2sig ext (data (c ! k)) ord = Inl e" using Cons.prems(3) Suc by simp
    from Cons.IH [OF k before fails, of "x @ [sg]" "y @ [t]"] show ?thesis using h by simp
  qed
qed

lemma test_metric_failure:
  assumes "test_xy ext c thr ord [] [] = Inr (x, y)"
    and "predict ext reg x = Inr predicted_raw"
    and "labels_of thr (map (\<lambda>prediction. findMin ext prediction thr) predicted_raw) = Inr predicted_labels"
    and "labels_of thr y = Inr y_labels"
    and "accuracy_score ext y_labels predicted_labels = Inl e
           \<or> (\<exists>acc. accuracy_score ext y_labels predicted_labels = Inr acc)
               \<and> roc_auc_score ext y_labels predicted_labels = Inl e"
  shows "test ext c reg thr ord = Inl e"
  using assms unfolding test_def by auto

lemma iteration_failure:
  assumes "(\<exists>w1. buildData ext 20 ''../data'' (7 / 10) (g1, g2) (world s) = (Inl e, w1))
         \<or> (\<exists>ts os w1 w2. buildData ext 20 ''../data'' (7 / 10) (g1, g2) (world s) = (Inr (ts, os), w1)
               \<and> fit ext ts thr 2 w1 = (Inl e, w2))
         \<or> (\<exists>ts os w1 reg w2. buildData ext 20 ''../data'' (7 / 10) (g1, g2) (world s) = (Inr (ts, os), w1)
               \<and> fit ext ts thr 2 w1 = (Inr reg, w2) \<and> test ext os reg thr 2 = Inl e)"
  shows "\<exists>s'. iteration ext thr g1 g2 s = (Some e, s')
           \<and> accuracy_results s' = accuracy_results s \<and> auc_results s' = auc_results s"
  using assms by (elim disjE exE conjE) (simp_all add: iteration_cases)

lemma main_failure:
  assumes p: "pairs = finished @ (g1, g2) # rest"
    and r: "run_pairs ext threshold finished (initial ext w) = (None, s)"
    and it: "iteration ext threshold g1 g2 s = (Some e, s')"
  shows "main ext w = (Some e, s')
           \<and> accuracy_results s' (g1, g2) = None \<and> auc_results s' (g1, g2) = None
           \<and> (\<forall>p \<in> set rest. accuracy_results s' p = None \<and> auc_results s' p = None)
           \<and> filter is_print (trace s') = []"
proof -
  have "run_pairs ext threshold pairs (initial ext w) = (Some e, s')"
    unfolding p run_pairs_append r using it by simp
  then have m: "main ext w = (Some e, s')" by (simp add: main_run)
  from run_pairs_None [OF r] obtain passes where
    "passes_ok ext threshold finished passes (world (initial ext w))"
    and tr: "trace s = trace (initial ext w) @ passes_events finished passes"
    and other: "\<forall>cell. cell \<notin> set finished \<longrightarrow>
       accuracy_results s cell = accuracy_results (initial ext w) cell
       \<and> auc_results s cell = auc_results (initial ext w) cell"
    by blast
  from iteration_Some [OF it] have same: "accuracy_results s' = accuracy_results s"
    "auc_results s' = auc_results s" by simp_all
  from iteration_Some [OF it]
  have "\<exists>evs. trace s' = trace s @ evs \<and> filter is_print evs = []"
    by (elim conjE disjE exE) (simp_all add: is_print_steps)
  then obtain evs where k: "trace s' = trace s @ evs" "filter is_print evs = []" by blast
  have np: "filter is_print (trace s') = []"
    unfolding k(1) tr filter_append is_print_passes_events k(2)
    by (simp add: initial_fields)
  have "distinct pairs" by (simp add: pairs_eq)
  then have d: "distinct (finished @ (g1, g2) # rest)" using p by simp
  have unset: "accuracy_results s' cell = None \<and> auc_results s' cell = None"
    if "cell \<notin> set finished" for cell
    using other [rule_format, OF that] same by (simp add: initial_fields)
  have "(g1, g2) \<notin> set finished" using d by auto
  moreover have "\<forall>p \<in> set rest. p \<notin> set finished" using d by auto
  ultimately show ?thesis using m np unset by blast
qed

text \<open>
  Claim C7. No exception is handled on the way. A signature that cannot be computed makes
  the loops of \<open>fit\<close> and \<open>test\<close> raise; \<open>fit\<close> raises what its loop or the training raises;
  \<open>test\<close> raises what its loop, the prediction or either metric raises; a pass of the main
  loop raises what the loader, \<open>fit\<close> or \<open>test\<close> raises, leaving both tables as they were;
  and the main script then ends with that exception, with no score recorded for the
  failing pair nor for the pairs after it, and without printing the tables.
\<close>

theorem failures_propagate:
  "(i < length c
      \<and> (\<forall>j < i. (\<exists>sg. stream2sig ext (data (c ! j)) ord = Inr sg)
                  \<and> (\<exists>t. getitem thr (diagnosis (c ! j)) = Inr t))
      \<and> stream2sig ext (data (c ! i)) ord = Inl e
      \<longrightarrow> fit_xy ext c thr ord [] [] = Inl e \<and> test_xy ext c thr ord [] [] = Inl e)
   \<and> (fit_xy ext c thr ord [] [] = Inl e \<longrightarrow> fit ext c thr ord w0 = (Inl e, w0))
   \<and> (fit_xy ext c thr ord [] [] = Inr (x, y) \<and> forest_fit ext x y w0 = (Inl e, w1)
      \<longrightarrow> fit ext c thr ord w0 = (Inl e, w1))
   \<and> (test_xy ext c thr ord [] [] = Inl e \<longrightarrow> test ext c reg thr ord = Inl e)
   \<and> (test_xy ext c thr ord [] [] = Inr (x, y) \<and> predict ext reg x = Inl e
      \<longrightarrow> test ext c reg thr ord = Inl e)
   \<and> (test_xy ext c thr ord [] [] = Inr (x, y) \<and> predict ext reg x = Inr predicted_raw
      \<and> labels_of thr (map (\<lambda>prediction. findMin ext prediction thr) predicted_raw) = Inr predicted_labels
      \<and> labels_of thr y = Inr y_labels
      \<and> (accuracy_score ext y_labels predicted_labels = Inl e
          \<or> (\<exists>acc. accuracy_score ext y_labels predicted_labels = Inr acc)
              \<and> roc_auc_score ext y_labels predicted_labels = Inl e)
      \<longrightarrow> test ext c reg thr ord = Inl e)
   \<and> ((\<exists>w1. buildData ext 20 ''../data'' (7 / 10) (g1, g2) (world s) = (Inl e, w1))
       \<or> (\<exists>ts os w1 w2. buildData ext 20 ''../data'' (7 / 10) (g1, g2) (world s) = (Inr (ts, os), w1)
             \<and> fit ext ts thr 2 w1 = (Inl e, w2))
       \<or> (\<exists>ts os w1 reg w2. buildData ext 20 ''../data'' (7 / 10) (g1, g2) (world s) = (Inr (ts, os), w1)
             \<and> fit ext ts thr 2 w1 = (Inr reg, w2) \<and> test ext os reg thr 2 = Inl e)
      \<longrightarrow> (\<exists>s'. iteration ext thr g1 g2 s = (Some e, s')
             \<and> accuracy_results s' = accuracy_results s \<and> auc_results s' = auc_results s))
   \<and> (pairs = finished @ (g1, g2) # rest
      \<and> run_pairs ext threshold finished (initial ext w) = (None, s)
      \<and> iteration ext threshold g1 g2 s = (Some e, s')
      \<longrightarrow> main ext w = (Some e, s')
          \<and> accuracy_results s' (g1, g2) = None \<and> auc_results s' (g1, g2) = None
          \<and> (\<forall>p \<in> set rest. accuracy_results s' p = None \<and> auc_results s' p = None)
          \<and> filter is_print (trace s') = [])"
proof (intro conjI impI; (elim conjE)?)
  assume "i < length c"
    "\<forall>j < i. (\<exists>sg. stream2sig ext (data (c ! j)) ord = Inr sg)
                  \<and> (\<exists>t. getitem thr (diagnosis (c ! j)) = Inr t)"
    "stream2sig ext (data (c ! i)) ord = Inl e"
  from fit_xy_first_failure [OF this] show "fit_xy ext c thr ord [] [] = Inl e" .
next
  assume "i < length c"
    "\<forall>j < i. (\<exists>sg. stream2sig ext (data (c ! j)) ord = Inr sg)
                  \<and> (\<exists>t. getitem thr (diagnosis (c ! j)) = Inr t)"
    "stream2sig ext (data (c ! i)) ord = Inl e"
  from fit_xy_first_failure [OF this] show "test_xy ext c thr ord [] [] = Inl e"
    by (simp add: test_xy_fit_xy)
next
  assume "fit_xy ext c thr ord [] [] = Inl e"
  then show "fit ext c thr ord w0 = (Inl e, w0)" by (simp add: fit_def)
next
  assume "fit_xy ext c thr ord [] [] = Inr (x, y)" "forest_fit ext x y w0 = (Inl e, w1)"
  then show "fit ext c thr ord w0 = (Inl e, w1)" by (simp add: fit_def)
next
  assume "test_xy ext c thr ord [] [] = Inl e"
  then show "test ext c reg thr ord = Inl e" by (simp add: test_def)
next
  assume "test_xy ext c thr ord [] [] = Inr (x, y)" "predict ext reg x = Inl e"
  then show "test ext c reg thr ord = Inl e" by (simp add: test_def)
next
  assume "test_xy ext c thr ord [] [] = Inr (x, y)" "predict ext reg x = Inr predicted_raw"
    "labels_of thr (map (\<lambda>prediction. findMin ext prediction thr) predicted_raw) = Inr predicted_labels"
    "labels_of thr y = Inr y_labels"
    "accuracy_score ext y_labels predicted_labels = Inl e
          \<or> (\<exists>acc. accuracy_score ext y_labels predicted_labels = Inr acc)
              \<and> roc_auc_score ext y_labels predicted_labels = Inl e"
  then show "test ext c reg thr ord = Inl e" by (rule test_metric_failure)
next
  assume "(\<exists>w1. buildData ext 20 ''../data'' (7 / 10) (g1, g2) (world s) = (Inl e, w1))
       \<or> (\<exists>ts os w1 w2. buildData ext 20 ''../data'' (7 / 10) (g1, g2) (world s) = (Inr (ts, os), w1)
             \<and> fit ext ts thr 2 w1 = (Inl e, w2))
       \<or> (\<exists>ts os w1 reg w2. buildData ext 20 ''../data'' (7 / 10) (g1, g2) (world s) = (Inr (ts, os), w1)
             \<and> fit ext ts thr 2 w1 = (Inr reg, w2) \<and> test ext os reg thr 2 = Inl e)"
  then show "\<exists>s'. iteration ext thr g1 g2 s = (Some e, s')
             \<and> accuracy_results s' = accuracy_results s \<and> auc_results s' = auc_results s"
    by (rule iteration_failure)
next
  assume a: "pairs = finished @ (g1, g2) # rest"
    "run_pairs ext threshold finished (initial ext w) = (None, s)"
    "iteration ext threshold g1 g2 s = (Some e, s')"
  from main_failure [OF a] show "main ext w = (Some e, s')" by simp
  from main_failure [OF a] show "accuracy_results s' (g1, g2) = None" by simp
  from main_failure [OF a] show "auc_results s' (g1, g2) = None" by simp
  from main_failure [OF a]
  show "\<forall>p \<in> set rest. accuracy_results s' p = None \<and> auc_results s' p = None" by simp
  from main_failure [OF a] show "filter is_print (trace s') = []" by simp
qed

section \<open>The order of operations\<close>


section \<open>Runs of the stand-in libraries\<close>

lemma messages_append: "messages (xs @ ys) = messages xs @ messages ys"
  by (induction xs rule: messages.induct) simp_all

lemma loads_append: "loads (xs @ ys) = loads xs @ loads ys"
  by (induction xs rule: loads.induct) simp_all

lemma sample_fields:
  "buildData sample_libraries n path training groups w
     = (Inr ([sample_healthy, sample_bipolar], [sample_healthy, sample_bipolar]), Suc w)"
  "forest_fit sample_libraries x y w = (Inr (), Suc w)"
  "loc_view sample_libraries t row = True"
  "random_seed sample_libraries n w = 0"
  "np_random_seed sample_libraries n w = w"
  by (simp_all add: sample_libraries_def)

lemma sample_fit:
  "fit sample_libraries [sample_healthy, sample_bipolar] threshold 2 w = (Inr (), Suc w)"
  unfolding fit_def sample_test_xy [unfolded test_xy_fit_xy]
  by (simp add: sample_fields)

lemma sample_iteration:
  "iteration sample_libraries threshold g1 g2 s =
     (None, s\<lparr>accuracy_results := (accuracy_results s)((g1, g2) \<mapsto> 1),
              auc_results := (auc_results s)((g1, g2) \<mapsto> 1),
              trace := trace s @ spec_load_events g1 g2
                         @ spec_fit_events [sample_healthy, sample_bipolar]
                         @ spec_test_events [sample_healthy, sample_bipolar] ()
                         @ spec_record_events g1 g2 1 1,
              world := Suc (Suc (world s))\<rparr>)"
  by (simp add: iteration_cases sample_fields sample_fit sample_test loc_setitem_def)



lemma failing_fields:
  "buildData failing_libraries n path training groups w
     = (Inr ([sample_healthy, sample_bipolar], [sample_healthy, sample_bipolar]), Suc w)"
  "forest_fit failing_libraries x y w = (Inr (), Suc w)"
  "predict failing_libraries = predict sample_libraries"
  "accuracy_score failing_libraries = accuracy_score sample_libraries"
  "roc_auc_score failing_libraries y_true y_score = Inl ValueError"
  "stream2sig failing_libraries = stream2sig sample_libraries"
  by (simp_all add: failing_libraries_def sample_libraries_def)

lemma failing_test_xy:
  "test_xy failing_libraries [sample_healthy, sample_bipolar] threshold 2 [] []
     = Inr ([[0, 0, 1, 1], [1, 0, 0, 1]], [(1, 0), (0, 1)])"
  by (simp add: failing_fields sample_libraries_def sample_healthy_def sample_bipolar_def
        threshold_def getitem_def)

lemma failing_test:
  "test failing_libraries [sample_healthy, sample_bipolar] () threshold 2 = Inl ValueError"
  unfolding test_def failing_test_xy
  by (simp add: failing_fields sample_libraries_def threshold_labels
        float_findMin_healthy [OF failing_numpy] float_findMin_bipolar [OF failing_numpy])

lemma failing_fit:
  "fit failing_libraries [sample_healthy, sample_bipolar] threshold 2 w = (Inr (), Suc w)"
  unfolding fit_def failing_test_xy [unfolded test_xy_fit_xy]
  by (simp add: failing_fields)

lemma failing_iteration:
  "iteration failing_libraries threshold g1 g2 s =
     (Some ValueError,
      s\<lparr>trace := trace s @ spec_load_events g1 g2
                    @ spec_fit_events [sample_healthy, sample_bipolar]
                    @ spec_test_events [sample_healthy, sample_bipolar] (),
        world := Suc (Suc (world s))\<rparr>)"
  by (simp add: iteration_cases failing_fields failing_fit failing_test)



theorem failures_propagate_witness:
  "\<exists>s'. iteration failing_libraries threshold ''healthy'' ''bipolar'' (initial failing_libraries 0)
           = (Some ValueError, s')
        \<and> main failing_libraries 0 = (Some ValueError, s')
        \<and> accuracy_results s' (''healthy'', ''bipolar'') = None
        \<and> auc_results s' (''healthy'', ''bipolar'') = None
        \<and> filter is_print (trace s') = []"
proof -
  let ?s = "initial failing_libraries 0"
  obtain s' where it: "iteration failing_libraries threshold ''healthy'' ''bipolar'' ?s
                         = (Some ValueError, s')"
    using failing_iteration by blast
  have p: "pairs = [] @ (''healthy'', ''bipolar'')
                     # [(''healthy'', ''borderline''), (''bipolar'', ''borderline'')]"
    by (simp add: pairs_eq)
  have r: "run_pairs failing_libraries threshold [] ?s = (None, ?s)" by simp
  have "pairs = [] @ (''healthy'', ''bipolar'')
                     # [(''healthy'', ''borderline''), (''bipolar'', ''borderline'')]
      \<and> run_pairs failing_libraries threshold [] ?s = (None, ?s)
      \<and> iteration failing_libraries threshold ''healthy'' ''bipolar'' ?s = (Some ValueError, s')
      \<longrightarrow> main failing_libraries 0 = (Some ValueError, s')
          \<and> accuracy_results s' (''healthy'', ''bipolar'') = None
          \<and> auc_results s' (''healthy'', ''bipolar'') = None
          \<and> (\<forall>p \<in> set [(''healthy'', ''borderline''), (''bipolar'', ''borderline'')].
                accuracy_results s' p = None \<and> auc_results s' p = None)
          \<and> filter is_print (trace s') = []"
    using failures_propagate [where ext = failing_libraries and w = 0 and finished = "[]"
        and ?g1.0 = "''healthy''" and ?g2.0 = "''bipolar''" and s = ?s and s' = s'
        and e = ValueError
        and rest = "[(''healthy'', ''borderline''), (''bipolar'', ''borderline'')]",
        THEN conjunct2, THEN conjunct2, THEN conjunct2, THEN conjunct2, THEN conjunct2,
        THEN conjunct2, THEN conjunct2]
    .
  then show ?thesis using p r it by blast
qed

lemma iteration_other_cells:
  assumes "iteration ext thr g1 g2 s = (r, s')" and "cell \<noteq> (g1, g2)"
  shows "accuracy_results s' cell = accuracy_results s cell
           \<and> auc_results s' cell = auc_results s cell"
proof (cases r)
  case None
  from iteration_None [OF assms(1) [unfolded None]] show ?thesis
    using assms(2) by (auto simp: loc_setitem_other)
next
  case (Some e)
  from iteration_Some [OF assms(1) [unfolded Some]] show ?thesis by simp
qed

lemma iteration_messages:
  assumes "iteration ext thr g1 g2 s = (r, s')"
  shows "\<exists>k. (k = 1 \<or> k = 3 \<or> k = 5 \<or> k = 6)
           \<and> messages (trace s')
               = messages (trace s)
                 @ take k [''Loading '' @ g1 @ '' and '' @ g2 @ ''...'', ''Done.'' @ [CHR 0x0A],
                           ''Training the model...'', ''Done.'' @ [CHR 0x0A],
                           ''Testing the model...'', ''Done.'']"
proof (cases r)
  case None
  from iteration_None [OF assms(1) [unfolded None]] obtain ps where
    "pass_ok ext thr (g1, g2) ps" and "trace s' = trace s @ pass_events (g1, g2) ps" by blast
  then show ?thesis
    by (intro exI [of _ 6])
       (simp add: messages_append pass_events_def spec_load_events_def spec_fit_events_def
          spec_test_events_def spec_record_events_def)
next
  case (Some e)
  from iteration_Some [OF assms(1) [unfolded Some]]
  show ?thesis
    by (elim conjE disjE exE)
       (rule exI [of _ 1], simp add: messages_append spec_load_events_def,
        rule exI [of _ 3], simp add: messages_append spec_load_events_def spec_fit_events_def,
        rule exI [of _ 5], simp add: messages_append spec_load_events_def spec_fit_events_def
          spec_test_events_def)
qed

lemma iteration_world:
  assumes "iteration ext thr g1 g2 s = (r, s')"
  shows "world s' = (case buildData ext 20 ''../data'' (7 / 10) (g1, g2) (world s) of
                       (Inl e, w) \<Rightarrow> w
                     | (Inr (ts, os), w) \<Rightarrow> snd (fit ext ts thr 2 w))"
proof (cases r)
  case None
  from iteration_None [OF assms(1) [unfolded None]] show ?thesis
    by (auto simp: pass_ok_def)
next
  case (Some e)
  from iteration_Some [OF assms(1) [unfolded Some]] show ?thesis
    by (elim conjE disjE exE) simp_all
qed

text \<open>
  Claim C8, amended. A pass of the main loop for the pair \<open>(group1, group2)\<close> changes, of
  the two tables, at most the cell \<open>(group1, group2)\<close> of each: every other cell of both
  tables is as it was. The other state the passes share is changed too, and nothing else
  is: the logger receives the messages of the pass, up to six of them, after those it
  already had, and the world of the global random number generators and of the files is
  the one the loader and then \<open>fit\<close> leave.
\<close>

theorem iteration_frame:
  assumes "iteration ext thr g1 g2 s = (r, s')"
  shows "(\<forall>cell. cell \<noteq> (g1, g2) \<longrightarrow>
            accuracy_results s' cell = accuracy_results s cell
            \<and> auc_results s' cell = auc_results s cell)
         \<and> (\<exists>k. (k = 1 \<or> k = 3 \<or> k = 5 \<or> k = 6)
               \<and> messages (trace s')
                   = messages (trace s)
                     @ take k [''Loading '' @ g1 @ '' and '' @ g2 @ ''...'', ''Done.'' @ [CHR 0x0A],
                               ''Training the model...'', ''Done.'' @ [CHR 0x0A],
                               ''Testing the model...'', ''Done.''])
         \<and> world s' = (case buildData ext 20 ''../data'' (7 / 10) (g1, g2) (world s) of
                          (Inl e, w) \<Rightarrow> w
                        | (Inr (ts, os), w) \<Rightarrow> snd (fit ext ts thr 2 w))"
proof (intro conjI allI impI)
  fix cell :: "string \<times> string"
  assume "cell \<noteq> (g1, g2)"
  then show "accuracy_results s' cell = accuracy_results s cell"
    and "auc_results s' cell = auc_results s cell"
    using iteration_other_cells [OF assms] by blast+
next
  show "\<exists>k. (k = 1 \<or> k = 3 \<or> k = 5 \<or> k = 6)
               \<and> messages (trace s')
                   = messages (trace s)
                     @ take k [''Loading '' @ g1 @ '' and '' @ g2 @ ''...'', ''Done.'' @ [CHR 0x0A],
                               ''Training the model...'', ''Done.'' @ [CHR 0x0A],
                               ''Testing the model...'', ''Done.'']"
    by (rule iteration_messages [OF assms])
next
  show "world s' = (case buildData ext 20 ''../data'' (7 / 10) (g1, g2) (world s) of
                          (Inl e, w) \<Rightarrow> w
                        | (Inr (ts, os), w) \<Rightarrow> snd (fit ext ts thr 2 w))"
    by (rule iteration_world [OF assms])
qed

theorem iteration_frame_witness:
  "\<exists>s'. iteration sample_libraries threshold ''healthy'' ''bipolar'' (initial sample_libraries 0)
           = (None, s')
        \<and> accuracy_results s' (''bipolar'', ''borderline'') = None
        \<and> auc_results s' (''bipolar'', ''borderline'') = None
        \<and> world s' = 2"
proof -
  let ?s = "initial sample_libraries 0"
  obtain s' where it: "iteration sample_libraries threshold ''healthy'' ''bipolar'' ?s = (None, s')"
    using sample_iteration by blast
  from iteration_frame [OF it] have
    a: "\<forall>cell. cell \<noteq> (''healthy'', ''bipolar'') \<longrightarrow>
            accuracy_results s' cell = accuracy_results ?s cell
            \<and> auc_results s' cell = auc_results ?s cell"
    and b: "world s' = (case buildData sample_libraries 20 ''../data'' (7 / 10)
                              (''healthy'', ''bipolar'') (world ?s) of
                          (Inl e, w) \<Rightarrow> w
                        | (Inr (ts, os), w) \<Rightarrow> snd (fit sample_libraries ts threshold 2 w))"
    by blast+
  have "accuracy_results s' (''bipolar'', ''borderline'') = None
        \<and> auc_results s' (''bipolar'', ''borderline'') = None"
    using a [rule_format, of "(''bipolar'', ''borderline'')"] by (simp add: initial_fields)
  moreover have "world s' = 2"
    using b by (simp add: sample_fields sample_fit initial_def)
  ultimately show ?thesis using it by blast
qed

text \<open>
  The claim C8 as stated fails: the first pass of the run of the stand-in libraries leaves
  the world, which the loader and the training of the forest draw from, changed for the
  passes after it, and leaves six messages with the logger.
\<close>

theorem iteration_changes_shared_state:
  "world (initial sample_libraries 0) = 0
   \<and> world (snd (iteration sample_libraries threshold ''healthy'' ''bipolar''
                    (initial sample_libraries 0))) = 2
   \<and> messages (trace (initial sample_libraries 0)) = []
   \<and> messages (trace (snd (iteration sample_libraries threshold ''healthy'' ''bipolar''
                              (initial sample_libraries 0))))
       = [''Loading healthy and bipolar...'', ''Done.'' @ [CHR 0x0A], ''Training the model...'',
          ''Done.'' @ [CHR 0x0A], ''Testing the model...'', ''Done.'']"
  by (simp add: sample_iteration initial_def sample_fields spec_load_events_def
        spec_fit_events_def spec_test_events_def spec_record_events_def)

section \<open>Chained assignment\<close>

lemma copying_fields:
  "buildData copying_libraries n path training groups w
     = (Inr ([sample_healthy, sample_bipolar], [sample_healthy, sample_bipolar]), Suc w)"
  "forest_fit copying_libraries x y w = (Inr (), Suc w)"
  "predict copying_libraries = predict sample_libraries"
  "accuracy_score copying_libraries = accuracy_score sample_libraries"
  "roc_auc_score copying_libraries = roc_auc_score sample_libraries"
  "stream2sig copying_libraries = stream2sig sample_libraries"
  "loc_view copying_libraries t row = False"
  "random_seed copying_libraries n w = 0"
  "np_random_seed copying_libraries n w = w"
  by (simp_all add: copying_libraries_def sample_libraries_def)

lemma copying_test_xy:
  "test_xy copying_libraries [sample_healthy, sample_bipolar] threshold 2 [] []
     = Inr ([[0, 0, 1, 1], [1, 0, 0, 1]], [(1, 0), (0, 1)])"
  by (simp add: copying_fields sample_libraries_def sample_healthy_def sample_bipolar_def
        threshold_def getitem_def)

lemma copying_test:
  "test copying_libraries [sample_healthy, sample_bipolar] () threshold 2 = Inr (1, 1)"
  unfolding test_def copying_test_xy
  by (simp add: copying_fields sample_libraries_def threshold_labels
        float_findMin_healthy [OF copying_numpy] float_findMin_bipolar [OF copying_numpy])

lemma copying_fit:
  "fit copying_libraries [sample_healthy, sample_bipolar] threshold 2 w = (Inr (), Suc w)"
  unfolding fit_def copying_test_xy [unfolded test_xy_fit_xy]
  by (simp add: copying_fields)

lemma copying_iteration:
  "iteration copying_libraries threshold g1 g2 s =
     (None, s\<lparr>accuracy_results := accuracy_results s,
              auc_results := auc_results s,
              trace := trace s @ spec_load_events g1 g2
                         @ spec_fit_events [sample_healthy, sample_bipolar]
                         @ spec_test_events [sample_healthy, sample_bipolar] ()
                         @ spec_record_events g1 g2 1 1,
              world := Suc (Suc (world s))\<rparr>)"
  by (simp add: iteration_cases copying_fields copying_fit copying_test loc_setitem_def)

lemma sample_tables:
  "\<exists>s. main sample_libraries 0 = (None, s)
     \<and> accuracy_results s (''healthy'', ''bipolar'') = Some 1
     \<and> accuracy_results s (''healthy'', ''borderline'') = Some 1
     \<and> accuracy_results s (''bipolar'', ''borderline'') = Some 1
     \<and> auc_results s (''healthy'', ''bipolar'') = Some 1
     \<and> auc_results s (''healthy'', ''borderline'') = Some 1
     \<and> auc_results s (''bipolar'', ''borderline'') = Some 1"
  by (simp add: main_run pairs_eq sample_iteration print_results_fields initial_fields)

lemma run_pairs_recorded:
  assumes view: "\<And>t row. loc_view ext t row"
  shows "run_pairs ext thr ps s = (None, s') \<Longrightarrow> distinct ps \<Longrightarrow>
   \<exists>passes. passes_ok ext thr ps passes (world s)
     \<and> length passes = length ps
     \<and> (\<forall>i < length ps.
           accuracy_results s' (ps ! i) = Some (pass_accuracy (passes ! i))
           \<and> auc_results s' (ps ! i) = Some (pass_auc (passes ! i)))"
proof (induction ps arbitrary: s)
  case Nil
  then show ?case by (intro exI [of _ "[]"]) simp
next
  case (Cons p ps)
  obtain g1 g2 where p: "p = (g1, g2)" by (cases p)
  obtain r s1 where it: "iteration ext thr g1 g2 s = (r, s1)"
    by (cases "iteration ext thr g1 g2 s")
  have rn: "r = None" using Cons.prems(1) it by (cases r) (simp_all add: p)
  have rest: "run_pairs ext thr ps s1 = (None, s')" using Cons.prems(1) it rn by (simp add: p)
  have d: "distinct ps" and fresh: "(g1, g2) \<notin> set ps" using Cons.prems(2) by (simp_all add: p)
  from iteration_None [OF it [unfolded rn]] obtain q where
    q: "pass_ok ext thr (g1, g2) q" "world_before q = world s" "world s1 = world_fitted q"
    "accuracy_results s1 = loc_setitem ext (accuracy_results s) g1 g2 (pass_accuracy q)"
    "auc_results s1 = loc_setitem ext (auc_results s) g1 g2 (pass_auc q)"
    by blast
  from run_pairs_None [OF rest] obtain passes0 where
    "passes_ok ext thr ps passes0 (world s1)"
    and other: "\<And>cell. cell \<notin> set ps \<Longrightarrow>
           accuracy_results s' cell = accuracy_results s1 cell
           \<and> auc_results s' cell = auc_results s1 cell"
    by blast
  from Cons.IH [OF rest d] obtain passes where
    v: "passes_ok ext thr ps passes (world s1)" "length passes = length ps"
    and cells: "\<And>i. i < length ps \<Longrightarrow>
           accuracy_results s' (ps ! i) = Some (pass_accuracy (passes ! i))
           \<and> auc_results s' (ps ! i) = Some (pass_auc (passes ! i))"
    by blast
  let ?passes = "q # passes"
  have c1: "passes_ok ext thr (p # ps) ?passes (world s)" using q(1,2,3) v(1) by (simp add: p)
  have c2: "length ?passes = length (p # ps)" using v(2) by simp
  have first: "accuracy_results s' (g1, g2) = Some (pass_accuracy q)
               \<and> auc_results s' (g1, g2) = Some (pass_auc q)"
    using other [OF fresh] q(4,5) view by (simp add: loc_setitem_def)
  have c3: "\<forall>i < length (p # ps).
           accuracy_results s' ((p # ps) ! i) = Some (pass_accuracy (?passes ! i))
           \<and> auc_results s' ((p # ps) ! i) = Some (pass_auc (?passes ! i))"
  proof (intro allI impI)
    fix i assume i: "i < length (p # ps)"
    show "accuracy_results s' ((p # ps) ! i) = Some (pass_accuracy (?passes ! i))
           \<and> auc_results s' ((p # ps) ! i) = Some (pass_auc (?passes ! i))"
    proof (cases i)
      case 0
      then show ?thesis using first by (simp add: p)
    next
      case (Suc j)
      then show ?thesis using cells [of j] i by simp
    qed
  qed
  show ?case
    by (rule exI [of _ ?passes]) (intro conjI c1 c2 c3)
qed

text \<open>
  Where \<^verbatim>\<open>.loc[group1]\<close> returns a view of the row, a complete run leaves in the cell of
  each pair the scores \<open>test\<close> returned in the pass of that pair.
\<close>

lemma view_assignment_recorded:
  assumes "main ext w = (None, s)" and view: "\<And>t row. loc_view ext t row"
  shows "\<exists>passes. passes_ok ext threshold pairs passes (world (initial ext w))
     \<and> length passes = length pairs
     \<and> (\<forall>i < length pairs.
           accuracy_results s (pairs ! i) = Some (pass_accuracy (passes ! i))
           \<and> auc_results s (pairs ! i) = Some (pass_auc (passes ! i)))"
proof -
  obtain r s1 where r: "run_pairs ext threshold pairs (initial ext w) = (r, s1)"
    by (cases "run_pairs ext threshold pairs (initial ext w)")
  have rn: "r = None" and s: "s = print_results s1"
    using assms(1) r by (cases r; simp add: main_run)+
  have d: "distinct pairs" by (simp add: pairs_eq)
  from run_pairs_recorded [OF view r [unfolded rn] d] show ?thesis
    by (simp add: s print_results_fields)
qed

text \<open>
  Claim C4. The script visits each of the three unordered pairs of distinct groups once
  and, for each, records one accuracy and one AUC in the tables at the cell of the pair.
  The loop and the two assignment statements are as the claim says; the assignments are
  chained (\<^verbatim>\<open>accuracy_results.loc[group1][group2] = accuracy\<close>), and where the row that
  \<^verbatim>\<open>.loc[group1]\<close> returns is a copy, the complete run below loads the three pairs once
  each, executes the six assignments with the scores \<open>test\<close> returned, and leaves both
  tables without any value: the tables that are printed are empty.
\<close>

theorem chained_assignment_lost:
  "\<exists>s. main copying_libraries 0 = (None, s)
     \<and> loads (trace s)
         = [(''healthy'', ''bipolar''), (''healthy'', ''borderline''), (''bipolar'', ''borderline'')]
     \<and> filter is_assignment (trace s)
         = [Set_accuracy ''healthy'' ''bipolar'' 1, Set_auc ''healthy'' ''bipolar'' 1,
            Set_accuracy ''healthy'' ''borderline'' 1, Set_auc ''healthy'' ''borderline'' 1,
            Set_accuracy ''bipolar'' ''borderline'' 1, Set_auc ''bipolar'' ''borderline'' 1]
     \<and> accuracy_results s = (\<lambda>cell. None)
     \<and> auc_results s = (\<lambda>cell. None)
     \<and> filter is_print (trace s) = [Log_to_string (\<lambda>cell. None), Log_to_string (\<lambda>cell. None)]"
  by (simp add: main_run pairs_eq copying_iteration print_results_fields initial_fields
        spec_load_events_def spec_fit_events_def spec_test_events_def spec_record_events_def
        spec_print_events_def)

end
